theory Spec2Isabelle
  imports Main "HOL-Library.AList"
begin

section \<open>Shared types\<close>

text \<open>
  The enumerations of \<^verbatim>\<open>shared/types\<close> as the connector and the routes use them.
\<close>

datatype AuthLevel = READ | WRITE_LOW | WRITE_HIGH

datatype ExecutionMode = AUTO | PLAN_ONLY | READ_ONLY

datatype Rollbackability = YES | PARTIAL | NO

datatype RiskLevel = LOW | MED | HIGH

text \<open>
  JavaScript values as they occur in action inputs, outputs and provider replies.
  An object is its list of entries in insertion order; a lookup takes the first entry of
  a key. Numbers are the integers, the only numbers the connector handles.
\<close>

datatype json =
    JUndefined
  | JNull
  | JBool bool
  | JNum int
  | JStr string
  | JArr "json list"
  | JObj "(string \<times> json) list"

text \<open>What a rejected promise carries: the error's class and its message.\<close>

datatype error = Error string | TypeError string | SyntaxError string

fun message :: "error \<Rightarrow> string" where
  "message (Error m) = m"
| "message (TypeError m) = m"
| "message (SyntaxError m) = m"

record ActionCapability =
  cap_id :: string
  version :: string
  authLevel :: AuthLevel
  supportedModes :: "ExecutionMode list"
  rollback :: Rollbackability
  risk :: RiskLevel
  policyConstraints :: "string list option"
  limitations :: "string list"

record DiscoveryMetadata =
  login :: json
  name :: json
  avatarUrl :: json
  grantedScopes :: "string list"
  demoMode :: "bool option"

record CapabilityDiscoveryResult =
  actions :: "ActionCapability list"
  readableScopes :: "string list"
  writableScopes :: "string list"
  missingScopes :: "string list"
  metadata :: DiscoveryMetadata

record RollbackPlan =
  action :: string
  params :: json

record ActionResult =
  output_value :: json
  evidence :: json
  snapshot :: "json option"
  rollbackPlan :: "RollbackPlan option"
  executionMode :: ExecutionMode

section \<open>JavaScript string and object helpers\<close>

text \<open>
  Decimal text of an integer, as string concatenation with a number writes it (for a
  magnitude below \<open>10\<^sup>2\<^sup>1\<close>, beyond which JavaScript turns to the exponent form).
\<close>

fun digits :: "nat \<Rightarrow> string" where
  "digits n = (if n < 10 then [char_of (48 + n)] else digits (n div 10) @ [char_of (48 + n mod 10)])"

declare digits.simps [simp del]

definition number_text :: "int \<Rightarrow> string" where
  "number_text i = (if i < 0 then CHR ''-'' # digits (nat (- i)) else digits (nat i))"

text \<open>\<^verbatim>\<open>s.startsWith(p)\<close>.\<close>

fun startsWith :: "string \<Rightarrow> string \<Rightarrow> bool" where
  "startsWith s [] = True"
| "startsWith [] (p # ps) = False"
| "startsWith (c # cs) (p # ps) = (c = p \<and> startsWith cs ps)"

text \<open>\<^verbatim>\<open>s.split(",")\<close>: the pieces between the separators; the empty string gives one empty piece.\<close>

fun split :: "char \<Rightarrow> string \<Rightarrow> string list" where
  "split sep [] = [[]]"
| "split sep (c # cs) =
     (if c = sep then [] # split sep cs
      else (case split sep cs of [] \<Rightarrow> [[c]] | w # ws \<Rightarrow> (c # w) # ws))"

text \<open>
  \<^verbatim>\<open>s.trim()\<close> on a header value, whose characters are the code units 0 to 255: tab, line
  feed, vertical tab, form feed, carriage return, space and no-break space are removed
  from both ends.
\<close>

definition isWhiteSpace :: "char \<Rightarrow> bool" where
  "isWhiteSpace c = (of_char c \<in> {9, 10, 11, 12, 13, 32, 160 :: nat})"

definition trim :: "string \<Rightarrow> string" where
  "trim s = rev (dropWhile isWhiteSpace (rev (dropWhile isWhiteSpace s)))"

text \<open>\<^verbatim>\<open>xs.includes(x)\<close>.\<close>

definition list_includes :: "string list \<Rightarrow> string \<Rightarrow> bool" where
  "list_includes xs x = (x \<in> set xs)"

text \<open>Truthiness, and \<^verbatim>\<open>a || b\<close> on values.\<close>

fun truthy :: "json \<Rightarrow> bool" where
  "truthy JUndefined = False"
| "truthy JNull = False"
| "truthy (JBool b) = b"
| "truthy (JNum n) = (n \<noteq> 0)"
| "truthy (JStr s) = (s \<noteq> [])"
| "truthy (JArr xs) = True"
| "truthy (JObj kvs) = True"

definition js_or :: "json \<Rightarrow> json \<Rightarrow> json" where
  "js_or a b = (if truthy a then a else b)"

text \<open>
  \<^verbatim>\<open>v.key\<close>: reading a property of \<^verbatim>\<open>undefined\<close> or \<^verbatim>\<open>null\<close> throws a TypeError; an object
  gives the entry or \<^verbatim>\<open>undefined\<close>. The keys read by the connector are none of the
  built-in properties of strings, numbers or arrays, so those give \<^verbatim>\<open>undefined\<close>.
\<close>

fun getProp :: "json \<Rightarrow> string \<Rightarrow> error + json" where
  "getProp JUndefined k =
     Inl (TypeError (''Cannot read properties of undefined (reading '' @ [CHR 0x27] @ k @ [CHR 0x27] @ '')''))"
| "getProp JNull k =
     Inl (TypeError (''Cannot read properties of null (reading '' @ [CHR 0x27] @ k @ [CHR 0x27] @ '')''))"
| "getProp (JObj kvs) k = Inr (case map_of kvs k of None \<Rightarrow> JUndefined | Some v \<Rightarrow> v)"
| "getProp v k = Inr JUndefined"

text \<open>\<^verbatim>\<open>v?.key\<close>: \<^verbatim>\<open>undefined\<close> where \<^verbatim>\<open>v\<close> is \<^verbatim>\<open>undefined\<close> or \<^verbatim>\<open>null\<close>.\<close>

definition opt_prop :: "json \<Rightarrow> string \<Rightarrow> json" where
  "opt_prop v k = (case getProp v k of Inl e \<Rightarrow> JUndefined | Inr x \<Rightarrow> x)"

text \<open>
  The text a template literal writes for a value. Arrays join their elements with
  commas, \<^verbatim>\<open>undefined\<close> and \<^verbatim>\<open>null\<close> elements as the empty text.
\<close>

fun join :: "string \<Rightarrow> string list \<Rightarrow> string" where
  "join sep [] = []"
| "join sep [x] = x"
| "join sep (x # y # ys) = x @ sep @ join sep (y # ys)"

fun to_text :: "json \<Rightarrow> string" where
  "to_text JUndefined = ''undefined''"
| "to_text JNull = ''null''"
| "to_text (JBool b) = (if b then ''true'' else ''false'')"
| "to_text (JNum n) = number_text n"
| "to_text (JStr s) = s"
| "to_text (JArr xs) =
     join '','' (map (\<lambda>x. if x = JUndefined \<or> x = JNull then [] else to_text x) xs)"
| "to_text (JObj kvs) = ''[object Object]''"

text \<open>The own enumerable entries an object spread \<^verbatim>\<open>{...v}\<close> copies.\<close>

fun spread :: "json \<Rightarrow> (string \<times> json) list" where
  "spread (JObj kvs) = kvs"
| "spread (JArr xs) = zip (map (\<lambda>i. digits i) [0 ..< length xs]) xs"
| "spread (JStr s) = zip (map (\<lambda>i. digits i) [0 ..< length s]) (map (\<lambda>c. JStr [c]) s)"
| "spread v = []"

text \<open>
  \<^verbatim>\<open>URLSearchParams.toString()\<close>: the form-urlencoded text of the pairs. A string is its
  UTF-8 bytes; letters, digits and \<^verbatim>\<open>*-._\<close> stay, a space becomes \<^verbatim>\<open>+\<close>, every other byte
  is written as \<^verbatim>\<open>%\<close> and two upper-case hexadecimal digits.
\<close>

definition hexDigit :: "nat \<Rightarrow> char" where
  "hexDigit n = (if n < 10 then char_of (48 + n) else char_of (55 + n))"

definition isAlnum :: "char \<Rightarrow> bool" where
  "isAlnum c = (let n = (of_char c :: nat) in
     (48 \<le> n \<and> n \<le> 57) \<or> (65 \<le> n \<and> n \<le> 90) \<or> (97 \<le> n \<and> n \<le> 122))"

definition formEncodeChar :: "char \<Rightarrow> string" where
  "formEncodeChar c =
     (if isAlnum c \<or> c \<in> set ''*-._'' then [c]
      else if c = CHR '' '' then ''+''
      else [CHR ''%'', hexDigit ((of_char c :: nat) div 16), hexDigit ((of_char c :: nat) mod 16)])"

definition formEncode :: "string \<Rightarrow> string" where
  "formEncode s = concat (map formEncodeChar s)"

definition searchParamsText :: "(string \<times> string) list \<Rightarrow> string" where
  "searchParamsText kvs = join ''&'' (map (\<lambda>(k, v). formEncode k @ ''='' @ formEncode v) kvs)"

section \<open>The provider, the clock and the configuration\<close>

text \<open>
  \<^verbatim>\<open>fetch\<close> is the outside world: a function from the request to a rejection or a
  response. \<open>json_body\<close> is what \<^verbatim>\<open>response.json()\<close> resolves or rejects with, and
  \<^verbatim>\<open>response.ok\<close> is a status from 200 to 299. Header names are kept in lower case. A
  request body is kept as the value \<^verbatim>\<open>JSON.stringify\<close> is applied to.
\<close>

record request =
  http_method :: string
  url :: string
  req_headers :: "(string \<times> string) list"
  req_body :: "json option"

record response =
  status :: nat
  statusText :: string
  resp_headers :: "(string \<times> string) list"
  json_body :: "error + json"

definition ok :: "response \<Rightarrow> bool" where
  "ok r = (200 \<le> status r \<and> status r \<le> 299)"

definition headers_get :: "response \<Rightarrow> string \<Rightarrow> string option" where
  "headers_get r k = map_of (resp_headers r) k"

type_synonym fetch = "request \<Rightarrow> error + response"

text \<open>
  The reply of the token endpoint, read at the types \<^verbatim>\<open>exchangeCodeForToken\<close> declares for
  its result: every field is a string, \<open>expires_in\<close> a number of seconds.
\<close>

record OAuthReply =
  reply_error :: "string option"
  error_description :: "string option"
  access_token :: string
  refresh_token :: "string option"
  expires_in :: "int option"

type_synonym token_endpoint = "request \<Rightarrow> error + OAuthReply"

text \<open>The three environment variables, each \<^verbatim>\<open>|| ""\<close>, read when the module loads.\<close>

record config =
  GITHUB_CLIENT_ID :: string
  GITHUB_CLIENT_SECRET :: string
  GITHUB_REDIRECT_URI :: string

definition DEMO_MODE :: "config \<Rightarrow> bool" where
  "DEMO_MODE cfg = (GITHUB_CLIENT_ID cfg = [] \<or> GITHUB_CLIENT_SECRET cfg = [])"

text \<open>Sequencing of steps that may reject.\<close>

definition bind :: "error + 'a \<Rightarrow> ('a \<Rightarrow> error + 'b) \<Rightarrow> error + 'b" where
  "bind m f = (case m of Inl e \<Rightarrow> Inl e | Inr x \<Rightarrow> f x)"

section \<open>The GitHub connector\<close>

definition GITHUB_SCOPES :: "string list" where
  "GITHUB_SCOPES = [''repo'', ''read:org'', ''admin:repo_hook'', ''read:user'']"

definition GITHUB_ACTIONS :: "ActionCapability list" where
  "GITHUB_ACTIONS = [
     \<lparr>cap_id = ''github.repo.get_settings'', version = ''1.0.0'', authLevel = READ,
      supportedModes = [AUTO, PLAN_ONLY, READ_ONLY], rollback = NO, risk = LOW,
      policyConstraints = None, limitations = [''Requires repo access'']\<rparr>,
     \<lparr>cap_id = ''github.repo.get_branch_protection'', version = ''1.0.0'', authLevel = READ,
      supportedModes = [AUTO, PLAN_ONLY, READ_ONLY], rollback = NO, risk = LOW,
      policyConstraints = None, limitations = [''Requires repo access'']\<rparr>,
     \<lparr>cap_id = ''github.repo.set_branch_protection'', version = ''1.0.0'', authLevel = WRITE_HIGH,
      supportedModes = [AUTO, PLAN_ONLY], rollback = YES, risk = MED,
      policyConstraints = None, limitations = [''Requires admin access to repository'']\<rparr>,
     \<lparr>cap_id = ''github.repo.enable_vulnerability_alerts'', version = ''1.0.0'', authLevel = WRITE_LOW,
      supportedModes = [AUTO, PLAN_ONLY], rollback = YES, risk = LOW,
      policyConstraints = None, limitations = [''Requires write access'']\<rparr>,
     \<lparr>cap_id = ''github.repo.enable_automated_security_fixes'', version = ''1.0.0'', authLevel = WRITE_LOW,
      supportedModes = [AUTO, PLAN_ONLY], rollback = YES, risk = LOW,
      policyConstraints = None, limitations = [''Requires write access'']\<rparr>,
     \<lparr>cap_id = ''github.security.apply_baseline'', version = ''1.0.0'', authLevel = WRITE_HIGH,
      supportedModes = [AUTO, PLAN_ONLY], rollback = YES, risk = MED,
      policyConstraints = Some [''Requires approval for MED+ risk''],
      limitations = [''Affects multiple repository settings'']\<rparr>,
     \<lparr>cap_id = ''github.security.verify_baseline'', version = ''1.0.0'', authLevel = READ,
      supportedModes = [AUTO, PLAN_ONLY, READ_ONLY], rollback = NO, risk = LOW,
      policyConstraints = None, limitations = []\<rparr>,
     \<lparr>cap_id = ''github.security.rollback_baseline'', version = ''1.0.0'', authLevel = WRITE_HIGH,
      supportedModes = [AUTO], rollback = NO, risk = HIGH,
      policyConstraints = Some [''Requires explicit approval''],
      limitations = [''May not restore all previous settings'']\<rparr>]"

definition generateOAuthUrl :: "config \<Rightarrow> string \<Rightarrow> string" where
  "generateOAuthUrl cfg state =
     (if DEMO_MODE cfg then ''/api/connections/github/demo-callback?state='' @ state
      else ''https://github.com/login/oauth/authorize?'' @
        searchParamsText [
          (''client_id'', GITHUB_CLIENT_ID cfg),
          (''redirect_uri'', GITHUB_REDIRECT_URI cfg),
          (''scope'', join '' '' GITHUB_SCOPES),
          (''state'', state),
          (''allow_signup'', ''false'')])"

text \<open>A Date is its time value in milliseconds.\<close>

record Credential =
  accessToken :: string
  refreshToken :: "string option"
  expiresAt :: "int option"

definition truthyStr :: "string option \<Rightarrow> bool" where
  "truthyStr v = (case v of None \<Rightarrow> False | Some s \<Rightarrow> s \<noteq> [])"

text \<open>
  \<open>now1\<close> and \<open>now2\<close> are the two readings of \<^verbatim>\<open>Date.now()\<close> in the demo branch, in
  the order the object literal evaluates them; the other branch reads the clock once,
  \<open>now1\<close>, after the reply.
\<close>

definition exchangeCodeForToken ::
  "config \<Rightarrow> token_endpoint \<Rightarrow> int \<Rightarrow> int \<Rightarrow> string \<Rightarrow> error + Credential" where
  "exchangeCodeForToken cfg post now1 now2 code =
     (if DEMO_MODE cfg \<or> code = ''demo'' then
        Inr \<lparr>accessToken = ''demo-access-token-'' @ number_text now1,
             refreshToken = None,
             expiresAt = Some (now2 + 3600 * 1000 * 24 * 30)\<rparr>
      else
        bind (post \<lparr>http_method = ''POST'', url = ''https://github.com/login/oauth/access_token'',
                    req_headers = [(''Accept'', ''application/json''),
                                   (''Content-Type'', ''application/json'')],
                    req_body = Some (JObj [
                      (''client_id'', JStr (GITHUB_CLIENT_ID cfg)),
                      (''client_secret'', JStr (GITHUB_CLIENT_SECRET cfg)),
                      (''code'', JStr code),
                      (''redirect_uri'', JStr (GITHUB_REDIRECT_URI cfg))])\<rparr>)
          (\<lambda>data.
            if truthyStr (reply_error data) then
              Inl (Error (''GitHub OAuth error: '' @
                (if truthyStr (error_description data) then the (error_description data)
                 else the (reply_error data))))
            else
              Inr \<lparr>accessToken = access_token data,
                   refreshToken = refresh_token data,
                   expiresAt = (case expires_in data of
                                  None \<Rightarrow> None
                                | Some n \<Rightarrow> if n \<noteq> 0 then Some (now1 + n * 1000) else None)\<rparr>))"

definition isDemoToken :: "string \<Rightarrow> bool" where
  "isDemoToken token = (token = [] \<or> startsWith token ''demo-'')"

definition userRequest :: "string \<Rightarrow> request" where
  "userRequest token =
     \<lparr>http_method = ''GET'', url = ''https://api.github.com/user'',
      req_headers = [(''Authorization'', ''Bearer '' @ token),
                     (''Accept'', ''application/vnd.github.v3+json'')],
      req_body = None\<rparr>"

definition demoCapabilities :: CapabilityDiscoveryResult where
  "demoCapabilities =
     \<lparr>actions = GITHUB_ACTIONS,
      readableScopes = [''repos'', ''commits'', ''branches'', ''pull_requests'',
                        ''organizations'', ''teams'', ''members''],
      writableScopes = [''repos'', ''branches'', ''settings'', ''webhooks''],
      missingScopes = [],
      metadata = \<lparr>login = JStr ''demo-user'', name = JStr ''Demo User'',
                  avatarUrl = JStr ''https://github.com/ghost.png'',
                  grantedScopes = [''repo'', ''read:org'', ''admin:repo_hook'', ''read:user''],
                  demoMode = Some True\<rparr>\<rparr>"

text \<open>The part of \<^verbatim>\<open>discoverCapabilities\<close> after the user reply: scopes to capabilities.\<close>

definition grantedScopesOf :: "response \<Rightarrow> string list" where
  "grantedScopesOf r =
     (let scopeHeader = (case headers_get r ''x-oauth-scopes'' of None \<Rightarrow> [] | Some h \<Rightarrow> h)
      in map trim (split CHR '','' scopeHeader))"

definition actionAvailable :: "string list \<Rightarrow> string list \<Rightarrow> ActionCapability \<Rightarrow> bool" where
  "actionAvailable granted writable a =
     (if authLevel a = READ then True
      else if authLevel a = WRITE_LOW \<and> length writable > 0 then True
      else if authLevel a = WRITE_HIGH \<and> list_includes granted ''repo'' then True
      else False)"

definition discoverCapabilities :: "fetch \<Rightarrow> string \<Rightarrow> error + CapabilityDiscoveryResult" where
  "discoverCapabilities fetch token =
     (if isDemoToken token then Inr demoCapabilities
      else
        bind (fetch (userRequest token)) (\<lambda>userResponse.
          if \<not> ok userResponse then Inl (Error ''Failed to fetch GitHub user info'')
          else
            bind (json_body userResponse) (\<lambda>user.
              let granted = grantedScopesOf userResponse;
                  hasRepo = list_includes granted ''repo'' \<or> list_includes granted ''public_repo'';
                  readable1 = (if hasRepo then [''repos'', ''commits'', ''branches'', ''pull_requests''] else []);
                  writable1 = (if hasRepo then [''repos'', ''branches'', ''settings''] else []);
                  missing1 = (if hasRepo then [] else [''repo'']);
                  hasOrg = list_includes granted ''read:org'';
                  readable2 = readable1 @ (if hasOrg then [''organizations'', ''teams'', ''members''] else []);
                  missing2 = missing1 @ (if hasOrg then [] else [''read:org'']);
                  writable2 = writable1 @ (if list_includes granted ''admin:repo_hook'' then [''webhooks''] else []);
                  availableActions = filter (actionAvailable granted writable2) GITHUB_ACTIONS
              in
                bind (getProp user ''login'') (\<lambda>userLogin.
                bind (getProp user ''name'') (\<lambda>userName.
                bind (getProp user ''avatar_url'') (\<lambda>userAvatar.
                  Inr \<lparr>actions = availableActions,
                       readableScopes = readable2,
                       writableScopes = writable2,
                       missingScopes = missing2,
                       metadata = \<lparr>login = userLogin, name = userName, avatarUrl = userAvatar,
                                   grantedScopes = granted, demoMode = None\<rparr>\<rparr>))))))"

definition getActions :: "ActionCapability list" where
  "getActions = GITHUB_ACTIONS"

subsection \<open>Action handlers\<close>

text \<open>
  \<open>isoNow\<close> is the text \<^verbatim>\<open>new Date().toISOString()\<close> gives when the handler builds its
  evidence. \<^verbatim>\<open>simulateDelay\<close> only waits and has no counterpart here.
\<close>

record ConnectorContext =
  ctx_accessToken :: string

record ActionExecuteParams =
  params_context :: ConnectorContext
  params_input :: json
  dryRun :: bool

definition apiHeaders :: "ConnectorContext \<Rightarrow> string \<Rightarrow> (string \<times> string) list" where
  "apiHeaders ctx accept =
     [(''Authorization'', ''Bearer '' @ ctx_accessToken ctx), (''Accept'', accept)]"

definition getRepoSettingsMock :: "string \<Rightarrow> json \<Rightarrow> error + ActionResult" where
  "getRepoSettingsMock isoNow inp =
     bind (getProp inp ''owner'') (\<lambda>owner.
     bind (getProp inp ''repo'') (\<lambda>repo.
       Inr \<lparr>output_value = JObj [
              (''private'', JBool False), (''hasIssues'', JBool True),
              (''hasProjects'', JBool True), (''hasWiki'', JBool True),
              (''hasDownloads'', JBool True), (''allowSquashMerge'', JBool True),
              (''allowMergeCommit'', JBool True), (''allowRebaseMerge'', JBool True),
              (''deleteBranchOnMerge'', JBool True), (''defaultBranch'', JStr ''main''),
              (''visibility'', JStr ''public'')],
            evidence = JObj [
              (''fetchedAt'', JStr isoNow),
              (''repoFullName'', JStr (to_text owner @ ''/'' @ to_text repo)),
              (''demoMode'', JBool True)],
            snapshot = None, rollbackPlan = None, executionMode = READ_ONLY\<rparr>))"

definition getBranchProtectionMock :: "string \<Rightarrow> json \<Rightarrow> error + ActionResult" where
  "getBranchProtectionMock isoNow inp =
     Inr \<lparr>output_value = JObj [
            (''protected'', JBool False), (''requiredStatusChecks'', JNull),
            (''enforceAdmins'', JBool False), (''requiredPullRequestReviews'', JNull),
            (''restrictions'', JNull), (''requiredLinearHistory'', JBool False),
            (''allowForcePushes'', JBool True), (''allowDeletions'', JBool True)],
          evidence = JObj [(''fetchedAt'', JStr isoNow), (''demoMode'', JBool True)],
          snapshot = None, rollbackPlan = None, executionMode = READ_ONLY\<rparr>"

definition mockCurrentState :: json where
  "mockCurrentState = JObj [
     (''protected'', JBool False), (''requiredStatusChecks'', JNull),
     (''enforceAdmins'', JBool False), (''requiredPullRequestReviews'', JNull)]"

definition mockNewSettings :: "(string \<times> json) list" where
  "mockNewSettings = [
     (''required_status_checks'',
        JObj [(''strict'', JBool True), (''contexts'', JArr [JStr ''ci/build''])]),
     (''enforce_admins'', JBool True),
     (''required_pull_request_reviews'',
        JObj [(''required_approving_review_count'', JNum 1),
              (''dismiss_stale_reviews'', JBool True)]),
     (''restrictions'', JNull),
     (''required_linear_history'', JBool False),
     (''allow_force_pushes'', JBool False),
     (''allow_deletions'', JBool False)]"

definition setBranchProtectionMock :: "string \<Rightarrow> json \<Rightarrow> bool \<Rightarrow> error + ActionResult" where
  "setBranchProtectionMock isoNow inp dry =
     (let currentState = mockCurrentState; newSettings = mockNewSettings in
      if dry then
        Inr \<lparr>output_value = JObj [(''wouldApply'', JObj newSettings)],
             evidence = JObj [(''dryRun'', JBool True), (''currentState'', currentState)],
             snapshot = Some currentState, rollbackPlan = None, executionMode = PLAN_ONLY\<rparr>
      else
        Inr \<lparr>output_value = JObj ((''protected'', JBool True) # newSettings),
             evidence = JObj [(''appliedAt'', JStr isoNow), (''previousState'', currentState),
                              (''demoMode'', JBool True)],
             snapshot = Some currentState,
             rollbackPlan = Some \<lparr>action = ''github.repo.set_branch_protection'',
               params = JObj (AList.update ''settings'' currentState (spread inp))\<rparr>,
             executionMode = AUTO\<rparr>)"

definition enableVulnerabilityAlertsMock :: "string \<Rightarrow> json \<Rightarrow> bool \<Rightarrow> error + ActionResult" where
  "enableVulnerabilityAlertsMock isoNow inp dry =
     (if dry then
        Inr \<lparr>output_value = JObj [(''wouldEnable'', JBool True),
                                  (''feature'', JStr ''vulnerability_alerts'')],
             evidence = JObj [(''dryRun'', JBool True)],
             snapshot = None, rollbackPlan = None, executionMode = PLAN_ONLY\<rparr>
      else
        Inr \<lparr>output_value = JObj [(''enabled'', JBool True),
                                  (''feature'', JStr ''vulnerability_alerts'')],
             evidence = JObj [(''enabledAt'', JStr isoNow), (''demoMode'', JBool True)],
             snapshot = None,
             rollbackPlan = Some \<lparr>action = ''github.repo.disable_vulnerability_alerts'',
                                   params = inp\<rparr>,
             executionMode = AUTO\<rparr>)"

definition enableAutomatedSecurityFixesMock :: "string \<Rightarrow> json \<Rightarrow> bool \<Rightarrow> error + ActionResult" where
  "enableAutomatedSecurityFixesMock isoNow inp dry =
     (if dry then
        Inr \<lparr>output_value = JObj [(''wouldEnable'', JBool True),
                                  (''feature'', JStr ''automated_security_fixes'')],
             evidence = JObj [(''dryRun'', JBool True)],
             snapshot = None, rollbackPlan = None, executionMode = PLAN_ONLY\<rparr>
      else
        Inr \<lparr>output_value = JObj [(''enabled'', JBool True),
                                  (''feature'', JStr ''automated_security_fixes'')],
             evidence = JObj [(''enabledAt'', JStr isoNow), (''demoMode'', JBool True)],
             snapshot = None,
             rollbackPlan = Some \<lparr>action = ''github.repo.disable_automated_security_fixes'',
                                   params = inp\<rparr>,
             executionMode = AUTO\<rparr>)"

definition baselineChanges :: json where
  "baselineChanges = JArr [
     JObj [(''setting'', JStr ''branch_protection''), (''status'', JStr ''enabled'')],
     JObj [(''setting'', JStr ''vulnerability_alerts''), (''status'', JStr ''enabled'')],
     JObj [(''setting'', JStr ''automated_security_fixes''), (''status'', JStr ''enabled'')],
     JObj [(''setting'', JStr ''secret_scanning''), (''status'', JStr ''enabled'')]]"

definition applySecurityBaselineMock :: "string \<Rightarrow> json \<Rightarrow> bool \<Rightarrow> error + ActionResult" where
  "applySecurityBaselineMock isoNow inp dry =
     (let changes = baselineChanges in
      if dry then
        Inr \<lparr>output_value = JObj [(''wouldApply'', changes)],
             evidence = JObj [(''dryRun'', JBool True)],
             snapshot = None, rollbackPlan = None, executionMode = PLAN_ONLY\<rparr>
      else
        Inr \<lparr>output_value = JObj [(''applied'', JBool True), (''changes'', changes),
               (''summary'', JStr ''Security baseline applied successfully'')],
             evidence = JObj [(''appliedAt'', JStr isoNow), (''demoMode'', JBool True)],
             snapshot = None,
             rollbackPlan = Some \<lparr>action = ''github.security.rollback_baseline'',
                                   params = inp\<rparr>,
             executionMode = AUTO\<rparr>)"

text \<open>
  An object literal whose values are properties of one value, read in order:
  \<^verbatim>\<open>{a: v.x, b: v.y}\<close> is \<open>pick v [(a, x), (b, y)]\<close>.
\<close>

fun pick :: "json \<Rightarrow> (string \<times> string) list \<Rightarrow> error + (string \<times> json) list" where
  "pick v [] = Inr []"
| "pick v ((field, key) # rest) =
     bind (getProp v key) (\<lambda>x. bind (pick v rest) (\<lambda>xs. Inr ((field, x) # xs)))"

definition repoUrl :: "json \<Rightarrow> json \<Rightarrow> string" where
  "repoUrl owner repo = ''https://api.github.com/repos/'' @ to_text owner @ ''/'' @ to_text repo"

definition getRepoSettings :: "fetch \<Rightarrow> string \<Rightarrow> ConnectorContext \<Rightarrow> json \<Rightarrow> error + ActionResult" where
  "getRepoSettings fetch isoNow ctx inp =
     (if isDemoToken (ctx_accessToken ctx) then getRepoSettingsMock isoNow inp
      else
        bind (getProp inp ''owner'') (\<lambda>owner.
        bind (getProp inp ''repo'') (\<lambda>repo.
        bind (fetch \<lparr>http_method = ''GET'', url = repoUrl owner repo,
                     req_headers = apiHeaders ctx ''application/vnd.github.v3+json'',
                     req_body = None\<rparr>) (\<lambda>response.
          if \<not> ok response then
            Inl (Error (''Failed to fetch repo settings: '' @ statusText response))
          else
            bind (json_body response) (\<lambda>repoData.
            bind (pick repoData [
                (''private'', ''private''), (''hasIssues'', ''has_issues''),
                (''hasProjects'', ''has_projects''), (''hasWiki'', ''has_wiki''),
                (''hasDownloads'', ''has_downloads''),
                (''allowSquashMerge'', ''allow_squash_merge''),
                (''allowMergeCommit'', ''allow_merge_commit''),
                (''allowRebaseMerge'', ''allow_rebase_merge''),
                (''deleteBranchOnMerge'', ''delete_branch_on_merge''),
                (''defaultBranch'', ''default_branch''),
                (''visibility'', ''visibility'')]) (\<lambda>out.
            bind (getProp repoData ''full_name'') (\<lambda>fullName.
              Inr \<lparr>output_value = JObj out,
                   evidence = JObj [(''fetchedAt'', JStr isoNow), (''repoFullName'', fullName)],
                   snapshot = None, rollbackPlan = None, executionMode = READ_ONLY\<rparr>)))))))"

definition protectionUrl :: "json \<Rightarrow> json \<Rightarrow> json \<Rightarrow> string" where
  "protectionUrl owner repo branch =
     repoUrl owner repo @ ''/branches/'' @ to_text branch @ ''/protection''"

definition getBranchProtection :: "fetch \<Rightarrow> string \<Rightarrow> ConnectorContext \<Rightarrow> json \<Rightarrow> error + ActionResult" where
  "getBranchProtection fetch isoNow ctx inp =
     (if isDemoToken (ctx_accessToken ctx) then getBranchProtectionMock isoNow inp
      else
        bind (getProp inp ''owner'') (\<lambda>owner.
        bind (getProp inp ''repo'') (\<lambda>repo.
        bind (getProp inp ''branch'') (\<lambda>branch.
        bind (fetch \<lparr>http_method = ''GET'', url = protectionUrl owner repo branch,
                     req_headers = apiHeaders ctx ''application/vnd.github.v3+json'',
                     req_body = None\<rparr>) (\<lambda>response.
          if status response = 404 then
            Inr \<lparr>output_value = JObj [(''protected'', JBool False)],
                 evidence = JObj [(''fetchedAt'', JStr isoNow)],
                 snapshot = None, rollbackPlan = None, executionMode = READ_ONLY\<rparr>
          else if \<not> ok response then
            Inl (Error (''Failed to fetch branch protection: '' @ statusText response))
          else
            bind (json_body response) (\<lambda>protection.
            bind (getProp protection ''required_status_checks'') (\<lambda>checks.
            bind (getProp protection ''enforce_admins'') (\<lambda>admins.
            bind (getProp protection ''required_pull_request_reviews'') (\<lambda>reviews.
            bind (getProp protection ''restrictions'') (\<lambda>restrictions.
            bind (getProp protection ''required_linear_history'') (\<lambda>linear.
            bind (getProp protection ''allow_force_pushes'') (\<lambda>pushes.
            bind (getProp protection ''allow_deletions'') (\<lambda>deletions.
              Inr \<lparr>output_value = JObj [
                     (''protected'', JBool True),
                     (''requiredStatusChecks'', checks),
                     (''enforceAdmins'', opt_prop admins ''enabled''),
                     (''requiredPullRequestReviews'', reviews),
                     (''restrictions'', restrictions),
                     (''requiredLinearHistory'', opt_prop linear ''enabled''),
                     (''allowForcePushes'', opt_prop pushes ''enabled''),
                     (''allowDeletions'', opt_prop deletions ''enabled'')],
                   evidence = JObj [(''fetchedAt'', JStr isoNow)],
                   snapshot = None, rollbackPlan = None,
                   executionMode = READ_ONLY\<rparr>)))))))))))))"

definition defaultProtectionSettings :: json where
  "defaultProtectionSettings = JObj [
     (''required_status_checks'', JObj [(''strict'', JBool True), (''contexts'', JArr [])]),
     (''enforce_admins'', JBool True),
     (''required_pull_request_reviews'',
        JObj [(''required_approving_review_count'', JNum 1),
              (''dismiss_stale_reviews'', JBool True)]),
     (''restrictions'', JNull)]"

definition setBranchProtection ::
  "fetch \<Rightarrow> string \<Rightarrow> ConnectorContext \<Rightarrow> json \<Rightarrow> bool \<Rightarrow> error + ActionResult" where
  "setBranchProtection fetch isoNow ctx inp dry =
     (if isDemoToken (ctx_accessToken ctx) then setBranchProtectionMock isoNow inp dry
      else
        bind (pick inp [(''owner'', ''owner''), (''repo'', ''repo''), (''branch'', ''branch'')])
          (\<lambda>target.
        bind (getBranchProtection fetch isoNow ctx (JObj target)) (\<lambda>currentState.
          if dry then
            bind (getProp inp ''settings'') (\<lambda>wanted.
              Inr \<lparr>output_value = JObj [(''wouldApply'', wanted)],
                   evidence = JObj [(''dryRun'', JBool True),
                                    (''currentState'', output_value currentState)],
                   snapshot = Some (output_value currentState), rollbackPlan = None,
                   executionMode = PLAN_ONLY\<rparr>)
          else
            bind (getProp inp ''settings'') (\<lambda>wanted.
            let settings = js_or wanted defaultProtectionSettings in
            bind (getProp inp ''owner'') (\<lambda>owner.
            bind (getProp inp ''repo'') (\<lambda>repo.
            bind (getProp inp ''branch'') (\<lambda>branch.
            bind (fetch \<lparr>http_method = ''PUT'', url = protectionUrl owner repo branch,
                         req_headers = apiHeaders ctx ''application/vnd.github.v3+json'' @
                                       [(''Content-Type'', ''application/json'')],
                         req_body = Some settings\<rparr>) (\<lambda>response.
              if \<not> ok response then
                Inl (Error (''Failed to set branch protection: '' @ statusText response))
              else
                bind (json_body response) (\<lambda>reply.
                  Inr \<lparr>output_value = reply,
                       evidence = JObj [(''appliedAt'', JStr isoNow),
                                        (''previousState'', output_value currentState)],
                       snapshot = Some (output_value currentState),
                       rollbackPlan = Some \<lparr>action = ''github.repo.set_branch_protection'',
                         params = JObj (AList.update ''settings'' (output_value currentState)
                                          (spread inp))\<rparr>,
                       executionMode = AUTO\<rparr>)))))))))"

definition enableVulnerabilityAlerts ::
  "fetch \<Rightarrow> string \<Rightarrow> ConnectorContext \<Rightarrow> json \<Rightarrow> bool \<Rightarrow> error + ActionResult" where
  "enableVulnerabilityAlerts fetch isoNow ctx inp dry =
     (if isDemoToken (ctx_accessToken ctx) then enableVulnerabilityAlertsMock isoNow inp dry
      else if dry then
        Inr \<lparr>output_value = JObj [(''wouldEnable'', JBool True)],
             evidence = JObj [(''dryRun'', JBool True)],
             snapshot = None, rollbackPlan = None, executionMode = PLAN_ONLY\<rparr>
      else
        bind (getProp inp ''owner'') (\<lambda>owner.
        bind (getProp inp ''repo'') (\<lambda>repo.
        bind (fetch \<lparr>http_method = ''PUT'', url = repoUrl owner repo @ ''/vulnerability-alerts'',
                     req_headers = apiHeaders ctx ''application/vnd.github.dorian-preview+json'',
                     req_body = None\<rparr>) (\<lambda>response.
          if \<not> ok response \<and> status response \<noteq> 204 then
            Inl (Error (''Failed to enable vulnerability alerts: '' @ statusText response))
          else
            Inr \<lparr>output_value = JObj [(''enabled'', JBool True)],
                 evidence = JObj [(''enabledAt'', JStr isoNow)],
                 snapshot = None,
                 rollbackPlan = Some \<lparr>action = ''github.repo.disable_vulnerability_alerts'',
                                       params = inp\<rparr>,
                 executionMode = AUTO\<rparr>))))"

definition enableAutomatedSecurityFixes ::
  "fetch \<Rightarrow> string \<Rightarrow> ConnectorContext \<Rightarrow> json \<Rightarrow> bool \<Rightarrow> error + ActionResult" where
  "enableAutomatedSecurityFixes fetch isoNow ctx inp dry =
     (if isDemoToken (ctx_accessToken ctx) then enableAutomatedSecurityFixesMock isoNow inp dry
      else if dry then
        Inr \<lparr>output_value = JObj [(''wouldEnable'', JBool True)],
             evidence = JObj [(''dryRun'', JBool True)],
             snapshot = None, rollbackPlan = None, executionMode = PLAN_ONLY\<rparr>
      else
        bind (getProp inp ''owner'') (\<lambda>owner.
        bind (getProp inp ''repo'') (\<lambda>repo.
        bind (fetch \<lparr>http_method = ''PUT'', url = repoUrl owner repo @ ''/automated-security-fixes'',
                     req_headers = apiHeaders ctx ''application/vnd.github.london-preview+json'',
                     req_body = None\<rparr>) (\<lambda>response.
          if \<not> ok response \<and> status response \<noteq> 204 then
            Inl (Error (''Failed to enable automated security fixes: '' @ statusText response))
          else
            Inr \<lparr>output_value = JObj [(''enabled'', JBool True)],
                 evidence = JObj [(''enabledAt'', JStr isoNow)],
                 snapshot = None,
                 rollbackPlan = Some \<lparr>action = ''github.repo.disable_automated_security_fixes'',
                                       params = inp\<rparr>,
                 executionMode = AUTO\<rparr>))))"

definition verifyBaselineMock :: "string \<Rightarrow> ActionResult" where
  "verifyBaselineMock isoNow =
     \<lparr>output_value = JObj [
        (''compliant'', JBool True),
        (''checks'', JArr [
           JObj [(''name'', JStr ''branch_protection''), (''status'', JStr ''pass'')],
           JObj [(''name'', JStr ''vulnerability_alerts''), (''status'', JStr ''pass'')],
           JObj [(''name'', JStr ''automated_security_fixes''), (''status'', JStr ''pass'')]])],
      evidence = JObj [(''verifiedAt'', JStr isoNow), (''demoMode'', JBool True)],
      snapshot = None, rollbackPlan = None, executionMode = READ_ONLY\<rparr>"

text \<open>The \<^verbatim>\<open>switch\<close> of \<^verbatim>\<open>executeAction\<close>, case by case in the source's order.\<close>

definition executeAction ::
  "fetch \<Rightarrow> string \<Rightarrow> string \<Rightarrow> ActionExecuteParams \<Rightarrow> error + ActionResult" where
  "executeAction fetch isoNow actionId p =
     (let ctx = params_context p; inp = params_input p; dry = dryRun p in
      if actionId = ''github.repo.get_settings'' then getRepoSettings fetch isoNow ctx inp
      else if actionId = ''github.repo.get_branch_protection'' then
        getBranchProtection fetch isoNow ctx inp
      else if actionId = ''github.repo.set_branch_protection'' then
        setBranchProtection fetch isoNow ctx inp dry
      else if actionId = ''github.repo.enable_vulnerability_alerts'' then
        enableVulnerabilityAlerts fetch isoNow ctx inp dry
      else if actionId = ''github.repo.enable_automated_security_fixes'' then
        enableAutomatedSecurityFixes fetch isoNow ctx inp dry
      else if actionId = ''github.security.apply_baseline'' then
        (if isDemoToken (ctx_accessToken ctx) then applySecurityBaselineMock isoNow inp dry
         else Inl (Error ''Security baseline requires full implementation''))
      else if actionId = ''github.security.verify_baseline'' then
        (if isDemoToken (ctx_accessToken ctx) then Inr (verifyBaselineMock isoNow)
         else Inl (Error ''Security baseline verification requires full implementation''))
      else Inl (Error (''Unknown action: '' @ actionId)))"

text \<open>
  The exported connector object: the five functions under one record, closed over the
  configuration and the provider.
\<close>

record Connector =
  connector_id :: string
  connector_name :: string
  c_generateOAuthUrl :: "string \<Rightarrow> string"
  c_exchangeCodeForToken :: "int \<Rightarrow> int \<Rightarrow> string \<Rightarrow> error + Credential"
  c_discoverCapabilities :: "string \<Rightarrow> error + CapabilityDiscoveryResult"
  c_getActions :: "ActionCapability list"
  c_executeAction :: "string \<Rightarrow> string \<Rightarrow> ActionExecuteParams \<Rightarrow> error + ActionResult"

definition githubConnector :: "config \<Rightarrow> token_endpoint \<Rightarrow> fetch \<Rightarrow> Connector" where
  "githubConnector cfg post fetch =
     \<lparr>connector_id = ''github'', connector_name = ''GitHub'',
      c_generateOAuthUrl = generateOAuthUrl cfg,
      c_exchangeCodeForToken = exchangeCodeForToken cfg post,
      c_discoverCapabilities = discoverCapabilities fetch,
      c_getActions = getActions,
      c_executeAction = executeAction fetch\<rparr>"

section \<open>The store and the registry\<close>

text \<open>
  Modelled from the spec: the records of \<^verbatim>\<open>shared/types\<close> that the store keeps (section 3
  of the spec), with the fields the handlers read and write. A Date is its time value.
\<close>

datatype ConnectionStatus = ACTIVE | REVOKED | EXPIRED

record Connection =
  conn_id :: string
  tenantId :: string
  userId :: string
  provider :: string
  accountId :: "string option"
  accountName :: "string option"
  conn_authLevel :: AuthLevel
  scopes :: "string list"
  conn_status :: ConnectionStatus
  conn_accessToken :: "string option"
  conn_refreshToken :: "string option"
  tokenExpiresAt :: "int option"
  lastDiscoveredAt :: "int option"

record CapabilityProfile =
  connectionId :: string
  profile_actions :: "ActionCapability list"
  readableCapabilities :: "string list"
  writeCapabilities :: "string list"
  profile_limitations :: "string list"

record PlanStep =
  step_actionId :: string
  step_input :: json

datatype PlanStatus = Draft | Approved | Executed | PlanFailed

record Plan =
  plan_id :: string
  sessionId :: string
  plan_connectionId :: "string option"
  title :: string
  description :: string
  steps :: "PlanStep list"
  riskLevel :: RiskLevel
  plan_executionMode :: ExecutionMode
  rollbackability :: Rollbackability
  requiredPermissions :: "string list"
  affectedResources :: "string list"
  plan_status :: PlanStatus
  confirmRequired :: bool

datatype RunStatus = PENDING | RUNNING | SUCCEEDED | FAILED | ROLLED_BACK

datatype StepResult = StepSuccess ActionResult | StepFailure string

record RunResult =
  runId :: string
  run_planId :: string
  run_dryRun :: bool
  run_status :: RunStatus
  run_success :: bool
  stepResults :: "StepResult list"
  run_error :: "string option"
  snapshotId :: "string option"

text \<open>
  Modelled from the spec: the Store (\<^verbatim>\<open>server/storage\<close> is not among the sources). The
  spec gives it as durable and strongly consistent for a single record: each table is a
  list of records, newest first, a lookup takes the first record of the identifier, an
  update merges the given fields into the stored record, and a created record gets the
  next identifier of the store.
\<close>

record Store =
  connections :: "Connection list"
  profiles :: "CapabilityProfile list"
  plans :: "Plan list"
  runs :: "RunResult list"
  auditEvents :: "json list"
  nextId :: nat

definition emptyStore :: Store where
  "emptyStore = \<lparr>connections = [], profiles = [], plans = [], runs = [], auditEvents = [],
                  nextId = 0\<rparr>"

definition getConnection :: "Store \<Rightarrow> string \<Rightarrow> Connection option" where
  "getConnection st cid = find (\<lambda>c. conn_id c = cid) (connections st)"

definition createConnection :: "Store \<Rightarrow> Connection \<Rightarrow> Store \<times> Connection" where
  "createConnection st c =
     (let c' = c\<lparr>conn_id := ''connection-'' @ digits (nextId st)\<rparr>
      in (st\<lparr>connections := c' # connections st, nextId := Suc (nextId st)\<rparr>, c'))"

definition updateConnection :: "Store \<Rightarrow> string \<Rightarrow> (Connection \<Rightarrow> Connection) \<Rightarrow> Store" where
  "updateConnection st cid upd =
     st\<lparr>connections := map (\<lambda>c. if conn_id c = cid then upd c else c) (connections st)\<rparr>"

definition createCapabilityProfile :: "Store \<Rightarrow> CapabilityProfile \<Rightarrow> Store \<times> CapabilityProfile" where
  "createCapabilityProfile st pr = (st\<lparr>profiles := pr # profiles st\<rparr>, pr)"

definition getCapabilityProfile :: "Store \<Rightarrow> string \<Rightarrow> CapabilityProfile option" where
  "getCapabilityProfile st cid = find (\<lambda>pr. connectionId pr = cid) (profiles st)"

definition getPlan :: "Store \<Rightarrow> string \<Rightarrow> Plan option" where
  "getPlan st pid = find (\<lambda>pl. plan_id pl = pid) (plans st)"

definition getRun :: "Store \<Rightarrow> string \<Rightarrow> RunResult option" where
  "getRun st rid = find (\<lambda>r. runId r = rid) (runs st)"

definition updatePlan :: "Store \<Rightarrow> string \<Rightarrow> (Plan \<Rightarrow> Plan) \<Rightarrow> Store" where
  "updatePlan st pid upd =
     st\<lparr>plans := map (\<lambda>pl. if plan_id pl = pid then upd pl else pl) (plans st)\<rparr>"

definition createRun :: "Store \<Rightarrow> RunResult \<Rightarrow> Store" where
  "createRun st r = st\<lparr>runs := r # runs st\<rparr>"

definition createAuditEvent :: "Store \<Rightarrow> json \<Rightarrow> Store" where
  "createAuditEvent st ev = st\<lparr>auditEvents := ev # auditEvents st\<rparr>"

text \<open>
  Modelled from the spec: the Connector Registry (\<^verbatim>\<open>connectors/index\<close> is not among the
  sources), a case-sensitive mapping from the provider identifier to its connector, with
  the GitHub connector as its one entry.
\<close>

definition getConnector :: "config \<Rightarrow> token_endpoint \<Rightarrow> fetch \<Rightarrow> string \<Rightarrow> Connector option" where
  "getConnector cfg post fetch prov =
     (if prov = ''github'' then Some (githubConnector cfg post fetch) else None)"

section \<open>The routes\<close>

text \<open>
  A handler takes the store and gives the store and the response it sends. \<open>tnow\<close> is
  the reading of \<^verbatim>\<open>Date.now()\<close> for the trace identifier, \<open>now\<close> the time value of
  \<^verbatim>\<open>new Date()\<close>, \<open>reg\<close> the registry's \<^verbatim>\<open>getConnector\<close>.
\<close>

record 'a ApiResponse =
  http_status :: nat
  success :: bool
  resp_data :: "'a option"
  resp_error :: "string option"
  traceId :: string

definition sendResponse :: "int \<Rightarrow> 'a \<Rightarrow> nat \<Rightarrow> 'a ApiResponse" where
  "sendResponse tnow d st =
     \<lparr>http_status = st, success = True, resp_data = Some d, resp_error = None,
      traceId = ''trace-'' @ number_text tnow\<rparr>"

definition sendError :: "int \<Rightarrow> string \<Rightarrow> nat \<Rightarrow> 'a ApiResponse" where
  "sendError tnow msg st =
     \<lparr>http_status = st, success = False, resp_data = None, resp_error = Some msg,
      traceId = ''trace-'' @ number_text tnow\<rparr>"

definition DEMO_USER_ID :: string where
  "DEMO_USER_ID = ''00000000-0000-0000-0000-000000000002''"

definition DEMO_TENANT_ID :: string where
  "DEMO_TENANT_ID = ''00000000-0000-0000-0000-000000000001''"

text \<open>\<^verbatim>\<open>req.headers["x-user-id"] || DEMO_USER_ID\<close>.\<close>

definition userIdOf :: "string option \<Rightarrow> string" where
  "userIdOf h = (case h of None \<Rightarrow> DEMO_USER_ID | Some u \<Rightarrow> if u = [] then DEMO_USER_ID else u)"

text \<open>\<^verbatim>\<open>POST /api/connections/:provider/start\<close>; \<open>uuid\<close> is what \<^verbatim>\<open>uuidv4()\<close> gives.\<close>

definition post_start ::
  "(string \<Rightarrow> Connector option) \<Rightarrow> int \<Rightarrow> string \<Rightarrow> string \<Rightarrow> (string \<times> string \<times> string) ApiResponse" where
  "post_start reg tnow uuid prov =
     (case reg prov of
        None \<Rightarrow> sendError tnow (''Unknown provider: '' @ prov) 404
      | Some connector \<Rightarrow>
          sendResponse tnow (c_generateOAuthUrl connector uuid, uuid, prov) 200)"

text \<open>\<^verbatim>\<open>POST /api/connections/:provider/callback\<close>.\<close>

definition post_callback ::
  "(string \<Rightarrow> Connector option) \<Rightarrow> int \<Rightarrow> int \<Rightarrow> int \<Rightarrow> Store \<Rightarrow> string \<Rightarrow> string \<Rightarrow> string option \<Rightarrow>
   Store \<times> Connection ApiResponse" where
  "post_callback reg now1 now2 tnow st prov code userHeader =
     (case reg prov of
        None \<Rightarrow> (st, sendError tnow (''Unknown provider: '' @ prov) 404)
      | Some connector \<Rightarrow>
          (case c_exchangeCodeForToken connector now1 now2 code of
             Inl e \<Rightarrow> (st, sendError tnow (message e) 400)
           | Inr tokens \<Rightarrow>
               (let (st1, connection) = createConnection st
                      \<lparr>conn_id = [], tenantId = DEMO_TENANT_ID, userId = userIdOf userHeader,
                       provider = prov, accountId = None, accountName = None,
                       conn_authLevel = READ, scopes = [], conn_status = ACTIVE,
                       conn_accessToken = Some (accessToken tokens),
                       conn_refreshToken = refreshToken tokens,
                       tokenExpiresAt = expiresAt tokens, lastDiscoveredAt = None\<rparr>
                in (st1, sendResponse tnow connection 201))))"

definition profileOf :: "string \<Rightarrow> CapabilityDiscoveryResult \<Rightarrow> CapabilityProfile" where
  "profileOf cid capabilities =
     \<lparr>connectionId = cid,
      profile_actions = actions capabilities,
      readableCapabilities = readableScopes capabilities,
      writeCapabilities = writableScopes capabilities,
      profile_limitations = missingScopes capabilities\<rparr>"

text \<open>
  \<^verbatim>\<open>POST /api/connections/:provider/connect\<close>, the demo bootstrap. The connection exists
  in the store from \<^verbatim>\<open>createConnection\<close> on, also when a later step is caught.
\<close>

definition post_connect ::
  "(string \<Rightarrow> Connector option) \<Rightarrow> int \<Rightarrow> int \<Rightarrow> int \<Rightarrow> int \<Rightarrow> Store \<Rightarrow> string \<Rightarrow> string option \<Rightarrow>
   Store \<times> (Connection \<times> CapabilityDiscoveryResult) ApiResponse" where
  "post_connect reg now1 now2 now tnow st prov userHeader =
     (case reg prov of
        None \<Rightarrow> (st, sendError tnow (''Unknown provider: '' @ prov) 404)
      | Some connector \<Rightarrow>
          (case c_exchangeCodeForToken connector now1 now2 ''demo'' of
             Inl e \<Rightarrow> (st, sendError tnow (message e) 400)
           | Inr tokens \<Rightarrow>
               (let (st1, connection) = createConnection st
                      \<lparr>conn_id = [], tenantId = DEMO_TENANT_ID, userId = userIdOf userHeader,
                       provider = prov, accountId = Some ''demo-account'',
                       accountName = Some ''Demo GitHub Account'',
                       conn_authLevel = WRITE_HIGH,
                       scopes = [''repo'', ''read:org'', ''admin:repo_hook'', ''read:user''],
                       conn_status = ACTIVE,
                       conn_accessToken = Some (accessToken tokens),
                       conn_refreshToken = refreshToken tokens,
                       tokenExpiresAt = expiresAt tokens, lastDiscoveredAt = None\<rparr>
                in case c_discoverCapabilities connector (accessToken tokens) of
                     Inl e \<Rightarrow> (st1, sendError tnow (message e) 400)
                   | Inr capabilities \<Rightarrow>
                       (let (st2, profile) = createCapabilityProfile st1
                              (profileOf (conn_id connection) capabilities);
                            st3 = updateConnection st2 (conn_id connection)
                              (\<lambda>c. c\<lparr>lastDiscoveredAt := Some now\<rparr>);
                            st4 = createAuditEvent st3 (JObj [
                              (''tenantId'', JStr DEMO_TENANT_ID),
                              (''actorId'', JStr (userIdOf userHeader)),
                              (''actorType'', JStr ''user''),
                              (''action'', JStr ''connection.create''),
                              (''target'', JStr (''connection:'' @ conn_id connection)),
                              (''resourceScope'', JStr prov),
                              (''result'', JStr ''success''),
                              (''payload'', JObj [(''provider'', JStr prov),
                                                  (''demoMode'', JBool True)])])
                        in (st4, sendResponse tnow (connection, capabilities) 201)))))"

text \<open>
  \<^verbatim>\<open>POST /api/connections/:provider/discover\<close>. The connection is looked up before the
  provider; the token passed on is \<^verbatim>\<open>connection.accessToken || ""\<close>.
\<close>

definition tokenOrEmpty :: "string option \<Rightarrow> string" where
  "tokenOrEmpty t = (case t of None \<Rightarrow> [] | Some x \<Rightarrow> if x = [] then [] else x)"

definition post_discover ::
  "(string \<Rightarrow> Connector option) \<Rightarrow> int \<Rightarrow> int \<Rightarrow> Store \<Rightarrow> string \<Rightarrow> string \<Rightarrow>
   Store \<times> CapabilityProfile ApiResponse" where
  "post_discover reg now tnow st prov cid =
     (case getConnection st cid of
        None \<Rightarrow> (st, sendError tnow ''Connection not found'' 404)
      | Some connection \<Rightarrow>
          (case reg prov of
             None \<Rightarrow> (st, sendError tnow (''Unknown provider: '' @ prov) 404)
           | Some connector \<Rightarrow>
               (case c_discoverCapabilities connector (tokenOrEmpty (conn_accessToken connection)) of
                  Inl e \<Rightarrow> (st, sendError tnow (message e) 400)
                | Inr capabilities \<Rightarrow>
                    (let (st1, profile) = createCapabilityProfile st
                           (profileOf (conn_id connection) capabilities);
                         st2 = updateConnection st1 (conn_id connection)
                           (\<lambda>c. c\<lparr>lastDiscoveredAt := Some now,
                                  conn_authLevel :=
                                    (if length (writableScopes capabilities) > 0 then WRITE_LOW
                                     else READ)\<rparr>)
                     in (st2, sendResponse tnow profile 200)))))"

text \<open>\<^verbatim>\<open>GET /api/connections/:id/capabilities\<close>, \<^verbatim>\<open>GET /api/plans/:id\<close>, \<^verbatim>\<open>GET /api/runs/:id\<close>.\<close>

definition get_capabilities :: "int \<Rightarrow> Store \<Rightarrow> string \<Rightarrow> CapabilityProfile ApiResponse" where
  "get_capabilities tnow st cid =
     (case getCapabilityProfile st cid of
        None \<Rightarrow> sendError tnow ''Capability profile not found'' 404
      | Some profile \<Rightarrow> sendResponse tnow profile 200)"

definition get_plan :: "int \<Rightarrow> Store \<Rightarrow> string \<Rightarrow> Plan ApiResponse" where
  "get_plan tnow st pid =
     (case getPlan st pid of
        None \<Rightarrow> sendError tnow ''Plan not found'' 404
      | Some plan \<Rightarrow> sendResponse tnow plan 200)"

definition get_run :: "int \<Rightarrow> Store \<Rightarrow> string \<Rightarrow> RunResult ApiResponse" where
  "get_run tnow st rid =
     (case getRun st rid of
        None \<Rightarrow> sendError tnow ''Run not found'' 404
      | Some run \<Rightarrow> sendResponse tnow run 200)"

text \<open>
  \<^verbatim>\<open>POST /api/plans/:id/dry-run\<close> and \<^verbatim>\<open>POST /api/plans/:id/approve\<close>, over the executor's
  \<^verbatim>\<open>executePlan\<close>. The payload is the run as the handler copies it: the dry run leaves
  \<^verbatim>\<open>snapshotId\<close> out.
\<close>

type_synonym executePlan_fn = "Store \<Rightarrow> Plan \<Rightarrow> Connection \<Rightarrow> bool \<Rightarrow> Store \<times> RunResult"

definition post_dry_run :: "executePlan_fn \<Rightarrow> int \<Rightarrow> Store \<Rightarrow> string \<Rightarrow> Store \<times> RunResult ApiResponse" where
  "post_dry_run executePlan tnow st pid =
     (case getPlan st pid of
        None \<Rightarrow> (st, sendError tnow ''Plan not found'' 404)
      | Some plan \<Rightarrow>
          (case plan_connectionId plan of
             None \<Rightarrow> (st, sendError tnow ''No connection associated with plan'' 400)
           | Some cid \<Rightarrow>
               if cid = [] then (st, sendError tnow ''No connection associated with plan'' 400)
               else
                 (case getConnection st cid of
                    None \<Rightarrow> (st, sendError tnow ''Connection not found'' 404)
                  | Some connection \<Rightarrow>
                      (let (st1, result) = executePlan st plan connection True
                       in (st1, sendResponse tnow (result\<lparr>snapshotId := None\<rparr>) 200)))))"

definition post_approve :: "executePlan_fn \<Rightarrow> int \<Rightarrow> Store \<Rightarrow> string \<Rightarrow> Store \<times> RunResult ApiResponse" where
  "post_approve executePlan tnow st pid =
     (case getPlan st pid of
        None \<Rightarrow> (st, sendError tnow ''Plan not found'' 404)
      | Some plan \<Rightarrow>
          (case plan_connectionId plan of
             None \<Rightarrow> (st, sendError tnow ''No connection associated with plan'' 400)
           | Some cid \<Rightarrow>
               if cid = [] then (st, sendError tnow ''No connection associated with plan'' 400)
               else
                 (case getConnection st cid of
                    None \<Rightarrow> (st, sendError tnow ''Connection not found'' 404)
                  | Some connection \<Rightarrow>
                      (let st1 = updatePlan st pid (\<lambda>pl. pl\<lparr>plan_status := Approved\<rparr>);
                           (st2, result) = executePlan st1 plan connection False
                       in (st2, sendResponse tnow result 200)))))"

text \<open>
  \<^verbatim>\<open>POST /api/runs/:id/rollback\<close>, over the executor's \<^verbatim>\<open>executeRollback\<close>: whatever it
  throws is caught and sent with status 400.
\<close>

definition post_rollback ::
  "(Store \<Rightarrow> string \<Rightarrow> string \<Rightarrow> Store \<times> (error + 'r)) \<Rightarrow> int \<Rightarrow> Store \<Rightarrow> string \<Rightarrow> string option \<Rightarrow>
   Store \<times> 'r ApiResponse" where
  "post_rollback executeRollback tnow st rid userHeader =
     (case executeRollback st rid (userIdOf userHeader) of
        (st1, Inl e) \<Rightarrow> (st1, sendError tnow (message e) 400)
      | (st1, Inr result) \<Rightarrow> (st1, sendResponse tnow result 200))"

section \<open>The executor\<close>

text \<open>
  Modelled from the spec: the Executor's \<^verbatim>\<open>executePlan\<close> (\<^verbatim>\<open>services/executor\<close> is not among
  the sources), over the \<^verbatim>\<open>executeAction\<close> of the connector bound to the connection.
  The steps run in the declared order; each step's outcome is recorded, a success with
  its result and a failure with the message of what the connector threw; the first
  failure ends the iteration. Beside the recorded outcomes the loop gives the steps it
  has invoked on the connector, in order.
\<close>

type_synonym executeAction_fn = "string \<Rightarrow> ActionExecuteParams \<Rightarrow> error + ActionResult"

fun runSteps ::
  "executeAction_fn \<Rightarrow> ConnectorContext \<Rightarrow> bool \<Rightarrow> PlanStep list \<Rightarrow> StepResult list \<times> PlanStep list" where
  "runSteps exec ctx dry [] = ([], [])"
| "runSteps exec ctx dry (s # rest) =
     (case exec (step_actionId s)
             \<lparr>params_context = ctx, params_input = step_input s, dryRun = dry\<rparr> of
        Inl e \<Rightarrow> ([StepFailure (message e)], [s])
      | Inr r \<Rightarrow>
          (let (results, invoked) = runSteps exec ctx dry rest
           in (StepSuccess r # results, s # invoked)))"

fun failureOf :: "StepResult \<Rightarrow> string option" where
  "failureOf (StepSuccess r) = None"
| "failureOf (StepFailure m) = Some m"

fun hasSnapshot :: "StepResult \<Rightarrow> bool" where
  "hasSnapshot (StepSuccess r) = (snapshot r \<noteq> None)"
| "hasSnapshot (StepFailure m) = False"

text \<open>The first failure among the recorded outcomes, if any.\<close>

definition firstFailure :: "StepResult list \<Rightarrow> string option" where
  "firstFailure results = (case List.map_filter failureOf results of [] \<Rightarrow> None | m # ms \<Rightarrow> Some m)"

text \<open>
  Modelled from the spec: steps 1 to 6 of \<^verbatim>\<open>executePlan\<close>. An inactive connection fails fast,
  before any step, and the run carries \<^verbatim>\<open>ConnectionInactiveError\<close>; the executor always
  gives a run and stores it. \<open>rid\<close> is the identifier the new run gets.
\<close>

definition executePlanTraced ::
  "executeAction_fn \<Rightarrow> string \<Rightarrow> Store \<Rightarrow> Plan \<Rightarrow> Connection \<Rightarrow> bool \<Rightarrow>
   Store \<times> RunResult \<times> PlanStep list" where
  "executePlanTraced exec rid st plan connection dry =
     (if conn_status connection \<noteq> ACTIVE then
        (let run = \<lparr>runId = rid, run_planId = plan_id plan, run_dryRun = dry,
                    run_status = FAILED, run_success = False, stepResults = [],
                    run_error = Some ''ConnectionInactiveError'', snapshotId = None\<rparr>
         in (createRun st run, run, []))
      else
        (let ctx = \<lparr>ctx_accessToken = tokenOrEmpty (conn_accessToken connection)\<rparr>;
             (results, invoked) = runSteps exec ctx dry (steps plan);
             failed = firstFailure results;
             run = \<lparr>runId = rid, run_planId = plan_id plan, run_dryRun = dry,
                    run_status = (if failed = None then SUCCEEDED else FAILED),
                    run_success = (failed = None),
                    stepResults = results,
                    run_error = failed,
                    snapshotId = (if failed = None \<and> list_all hasSnapshot results
                                  then Some (''snapshot-'' @ rid) else None)\<rparr>
         in (createRun st run, run, invoked)))"

definition executePlan ::
  "executeAction_fn \<Rightarrow> string \<Rightarrow> Store \<Rightarrow> Plan \<Rightarrow> Connection \<Rightarrow> bool \<Rightarrow> Store \<times> RunResult" where
  "executePlan exec rid st plan connection dry =
     (case executePlanTraced exec rid st plan connection dry of (st1, run, invoked) \<Rightarrow> (st1, run))"

text \<open>
  Modelled from the spec: the first step of \<^verbatim>\<open>executeRollback\<close>, which looks the run up and
  fails with \<^verbatim>\<open>RunNotFoundError\<close> if it is absent. What it does with a run it has found
  is the parameter \<open>found\<close>.
\<close>

definition executeRollback ::
  "(Store \<Rightarrow> RunResult \<Rightarrow> string \<Rightarrow> Store \<times> (error + 'r)) \<Rightarrow> Store \<Rightarrow> string \<Rightarrow> string \<Rightarrow>
   Store \<times> (error + 'r)" where
  "executeRollback found st rid actor =
     (case getRun st rid of
        None \<Rightarrow> (st, Inl (Error ''RunNotFoundError''))
      | Some run \<Rightarrow> found st run actor)"

section \<open>The planner\<close>

text \<open>The order of the risk classification: \<open>LOW < MED < HIGH\<close>.\<close>

fun riskRank :: "RiskLevel \<Rightarrow> nat" where
  "riskRank LOW = 0"
| "riskRank MED = 1"
| "riskRank HIGH = 2"

instantiation RiskLevel :: linorder
begin

definition less_eq_RiskLevel :: "RiskLevel \<Rightarrow> RiskLevel \<Rightarrow> bool" where
  "less_eq_RiskLevel a b = (riskRank a \<le> riskRank b)"

definition less_RiskLevel :: "RiskLevel \<Rightarrow> RiskLevel \<Rightarrow> bool" where
  "less_RiskLevel a b = (riskRank a < riskRank b)"

instance
proof
  fix x y z :: RiskLevel
  show "(x < y) = (x \<le> y \<and> \<not> y \<le> x)"
    by (auto simp: less_eq_RiskLevel_def less_RiskLevel_def)
  show "x \<le> x"
    by (simp add: less_eq_RiskLevel_def)
  show "x \<le> y \<Longrightarrow> y \<le> z \<Longrightarrow> x \<le> z"
    by (simp add: less_eq_RiskLevel_def)
  show "x \<le> y \<Longrightarrow> y \<le> x \<Longrightarrow> x = y"
    by (cases x; cases y) (simp_all add: less_eq_RiskLevel_def)
  show "x \<le> y \<or> y \<le> x"
    by (auto simp: less_eq_RiskLevel_def)
qed

end

fun authRank :: "AuthLevel \<Rightarrow> nat" where
  "authRank READ = 0"
| "authRank WRITE_LOW = 1"
| "authRank WRITE_HIGH = 2"

record PlanTemplate =
  tpl_title :: string
  tpl_description :: string
  tpl_steps :: "PlanStep list"
  tpl_executionMode :: ExecutionMode
  tpl_requiredPermissions :: "string list"
  tpl_affectedResources :: "string list"

record PlannerContext =
  ctx_userId :: string
  ctx_tenantId :: string
  ctx_connectionId :: "string option"
  ctx_provider :: "string option"

datatype PlannerOutcome = NoPlan | InsufficientPermission | Planned Plan

text \<open>
  Modelled from the spec: the capabilities a plan's steps resolve to, each step's action
  looked up by identifier in the connector's declared actions.
\<close>

definition resolveSteps :: "ActionCapability list \<Rightarrow> PlanStep list \<Rightarrow> ActionCapability list" where
  "resolveSteps declared ss =
     List.map_filter (\<lambda>s. find (\<lambda>a. cap_id a = step_actionId s) declared) ss"

text \<open>
  Modelled from the spec: the aggregate risk, the running maximum over the resolved
  capabilities, from the lowest level.
\<close>

definition aggregateRisk :: "ActionCapability list \<Rightarrow> RiskLevel" where
  "aggregateRisk caps = foldl (\<lambda>acc c. if acc \<le> risk c then risk c else acc) LOW caps"

text \<open>
  Modelled from the spec: \<^verbatim>\<open>YES\<close> only if every mutating step declares \<^verbatim>\<open>rollback: YES\<close>;
  \<^verbatim>\<open>NO\<close> if none does, \<^verbatim>\<open>PARTIAL\<close> otherwise. A step mutates when its action is above
  \<^verbatim>\<open>READ\<close>.
\<close>

definition planRollbackability :: "ActionCapability list \<Rightarrow> Rollbackability" where
  "planRollbackability caps =
     (let mutating = filter (\<lambda>c. authLevel c \<noteq> READ) caps in
      if list_all (\<lambda>c. rollback c = YES) mutating then YES
      else if list_all (\<lambda>c. rollback c \<noteq> YES) mutating then NO
      else PARTIAL)"

text \<open>
  Modelled from the spec: the Planner's \<^verbatim>\<open>generatePlan\<close> (\<^verbatim>\<open>services/planner\<close> is not among
  the sources). \<open>select\<close> is the fixed catalog of intent templates, \<open>declared\<close> the
  declared actions of the connector of the active connection. No active connection or no
  matching template gives no plan; a step above the connection's granted level gives the
  insufficient-permission outcome instead of a plan without that step.
\<close>

definition generatePlan ::
  "(string \<Rightarrow> PlanTemplate option) \<Rightarrow> ActionCapability list \<Rightarrow> Store \<Rightarrow> string \<Rightarrow> PlannerContext \<Rightarrow>
   PlannerOutcome" where
  "generatePlan select declared st intent ctx =
     (case ctx_connectionId ctx of
        None \<Rightarrow> NoPlan
      | Some cid \<Rightarrow>
          (case getConnection st cid of
             None \<Rightarrow> NoPlan
           | Some connection \<Rightarrow>
               if conn_status connection \<noteq> ACTIVE then NoPlan
               else
                 (case select intent of
                    None \<Rightarrow> NoPlan
                  | Some tpl \<Rightarrow>
                      (let caps = resolveSteps declared (tpl_steps tpl) in
                       if \<exists>c \<in> set caps. authRank (conn_authLevel connection) < authRank (authLevel c)
                       then InsufficientPermission
                       else
                         (let level = aggregateRisk caps in
                          Planned \<lparr>plan_id = [], sessionId = [], plan_connectionId = Some cid,
                            title = tpl_title tpl, description = tpl_description tpl,
                            steps = tpl_steps tpl,
                            riskLevel = level,
                            plan_executionMode = tpl_executionMode tpl,
                            rollbackability = planRollbackability caps,
                            requiredPermissions = tpl_requiredPermissions tpl,
                            affectedResources = tpl_affectedResources tpl,
                            plan_status = Draft,
                            confirmRequired =
                              (level = MED \<or> level = HIGH \<or>
                               (\<exists>c \<in> set caps. authLevel c = WRITE_HIGH))\<rparr>)))))"

section \<open>Concrete providers and inputs\<close>

text \<open>A provider that cannot be reached: every \<^verbatim>\<open>fetch\<close> rejects.\<close>

definition offline :: fetch where
  "offline req = Inl (TypeError ''fetch failed'')"

text \<open>A provider whose user endpoint answers for a credential granted \<^verbatim>\<open>read:org\<close> only.\<close>

definition readOrgOnly :: fetch where
  "readOrgOnly req = Inr \<lparr>status = 200, statusText = ''OK'',
     resp_headers = [(''x-oauth-scopes'', ''read:org'')],
     json_body = Inr (JObj [(''login'', JStr ''octocat'')])\<rparr>"

text \<open>No client identifier and no secret: demo mode.\<close>

definition demoConfig :: config where
  "demoConfig = \<lparr>GITHUB_CLIENT_ID = [], GITHUB_CLIENT_SECRET = [], GITHUB_REDIRECT_URI = []\<rparr>"

definition noTokenEndpoint :: token_endpoint where
  "noTokenEndpoint req = Inl (TypeError ''fetch failed'')"

text \<open>A store whose one connection is active and has no access token.\<close>

definition storedConnection :: Connection where
  "storedConnection =
     \<lparr>conn_id = ''connection-0'', tenantId = DEMO_TENANT_ID, userId = DEMO_USER_ID,
      provider = ''github'', accountId = None, accountName = None, conn_authLevel = WRITE_HIGH,
      scopes = [], conn_status = ACTIVE, conn_accessToken = None, conn_refreshToken = None,
      tokenExpiresAt = None, lastDiscoveredAt = None\<rparr>"

definition storedStore :: Store where
  "storedStore = emptyStore\<lparr>connections := [storedConnection]\<rparr>"

definition stepA :: PlanStep where
  "stepA = \<lparr>step_actionId = ''github.repo.get_branch_protection'', step_input = JObj []\<rparr>"

definition stepB :: PlanStep where
  "stepB = \<lparr>step_actionId = ''github.security.rollback_baseline'', step_input = JObj []\<rparr>"

definition stepC :: PlanStep where
  "stepC = \<lparr>step_actionId = ''github.security.verify_baseline'', step_input = JObj []\<rparr>"

definition planABC :: Plan where
  "planABC =
     \<lparr>plan_id = ''plan-0'', sessionId = ''session-0'', plan_connectionId = Some ''connection-0'',
      title = ''A, B, C'', description = [], steps = [stepA, stepB, stepC], riskLevel = HIGH,
      plan_executionMode = AUTO, rollbackability = NO, requiredPermissions = [],
      affectedResources = [], plan_status = Approved, confirmRequired = True\<rparr>"

definition hardenTemplate :: PlanTemplate where
  "hardenTemplate =
     \<lparr>tpl_title = ''Protect the main branch'', tpl_description = [],
      tpl_steps = [\<lparr>step_actionId = ''github.repo.get_settings'', step_input = JObj []\<rparr>,
                   \<lparr>step_actionId = ''github.repo.set_branch_protection'', step_input = JObj []\<rparr>],
      tpl_executionMode = AUTO, tpl_requiredPermissions = [''repo''],
      tpl_affectedResources = []\<rparr>"

definition hardenCatalog :: "string \<Rightarrow> PlanTemplate option" where
  "hardenCatalog intent = Some hardenTemplate"

text \<open>A demo credential, an input and the clock's text for the action handlers.\<close>

definition demoContext :: ConnectorContext where
  "demoContext = \<lparr>ctx_accessToken = ''demo-access-token-1''\<rparr>"

definition repoInput :: json where
  "repoInput = JObj [(''owner'', JStr ''octo''), (''repo'', JStr ''demo''), (''branch'', JStr ''main'')]"

definition isoSample :: string where
  "isoSample = ''2026-01-01T00:00:00.000Z''"

definition dryParams :: ActionExecuteParams where
  "dryParams = \<lparr>params_context = demoContext, params_input = repoInput, dryRun = True\<rparr>"

definition realParams :: ActionExecuteParams where
  "realParams = \<lparr>params_context = demoContext, params_input = repoInput, dryRun = False\<rparr>"

text \<open>
  Following the spec's words: a \<^verbatim>\<open>wouldApply\<close>/\<^verbatim>\<open>wouldEnable\<close>-style preview is an object
  with one of the two keys.
\<close>

fun isPreview :: "json \<Rightarrow> bool" where
  "isPreview (JObj kvs) = (''wouldApply'' \<in> fst ` set kvs \<or> ''wouldEnable'' \<in> fst ` set kvs)"
| "isPreview v = False"









section \<open>Basic facts\<close>

lemma length_GITHUB_ACTIONS: "length GITHUB_ACTIONS = 8"
  by (simp add: GITHUB_ACTIONS_def)

lemma bind_Inr: "bind m f = Inr y \<longleftrightarrow> (\<exists>x. m = Inr x \<and> f x = Inr y)"
  by (cases m) (simp_all add: bind_def)

section \<open>Capability discovery\<close>

lemma discover_demo:
  "isDemoToken t \<Longrightarrow> discoverCapabilities fetch t = Inr demoCapabilities"
  by (simp add: discoverCapabilities_def)

text \<open>What a discovery with a live credential has gone through when it returns.\<close>

lemma discover_live_cases:
  assumes "\<not> isDemoToken t" and "discoverCapabilities fetch t = Inr r"
  obtains resp where "fetch (userRequest t) = Inr resp" and "ok resp"
    and "actions r = filter (actionAvailable (grantedScopesOf resp) (writableScopes r)) GITHUB_ACTIONS"
    and "grantedScopes (metadata r) = grantedScopesOf resp"
    and "list_includes (grantedScopesOf resp) ''repo'' \<or> list_includes (grantedScopesOf resp) ''public_repo''
         \<or> ''repo'' \<in> set (missingScopes r)"
  using assms
  unfolding discoverCapabilities_def
  by (auto simp: bind_Inr Let_def split: if_splits)

text \<open>
  C1. For a credential that is not a demo credential, what \<^verbatim>\<open>discoverCapabilities\<close> returns
  holds declared actions only; every READ action is among them; a WRITE_LOW action is
  among them only if the writable scopes are not empty; a WRITE_HIGH action only if the
  granted scopes include \<^verbatim>\<open>repo\<close>. When \<^verbatim>\<open>read:org\<close> is the only granted scope, the
  actions exclude \<^verbatim>\<open>github.repo.set_branch_protection\<close> and the missing scopes include
  \<^verbatim>\<open>repo\<close>.
\<close>

theorem discoverCapabilities_scope_sufficient:
  assumes "\<not> isDemoToken t" and "discoverCapabilities fetch t = Inr r"
  shows "set (actions r) \<subseteq> set GITHUB_ACTIONS
       \<and> (\<forall>a \<in> set GITHUB_ACTIONS. authLevel a = READ \<longrightarrow> a \<in> set (actions r))
       \<and> (\<forall>a \<in> set (actions r). authLevel a = WRITE_LOW \<longrightarrow> writableScopes r \<noteq> [])
       \<and> (\<forall>a \<in> set (actions r). authLevel a = WRITE_HIGH \<longrightarrow>
             ''repo'' \<in> set (grantedScopes (metadata r)))
       \<and> (grantedScopes (metadata r) = [''read:org''] \<longrightarrow>
            ''github.repo.set_branch_protection'' \<notin> cap_id ` set (actions r)
            \<and> ''repo'' \<in> set (missingScopes r))"
proof -
  from assms obtain resp where
    acts: "actions r = filter (actionAvailable (grantedScopesOf resp) (writableScopes r)) GITHUB_ACTIONS"
    and gr: "grantedScopes (metadata r) = grantedScopesOf resp"
    and miss: "list_includes (grantedScopesOf resp) ''repo'' \<or> list_includes (grantedScopesOf resp) ''public_repo''
         \<or> ''repo'' \<in> set (missingScopes r)"
    by (rule discover_live_cases)
  have 1: "set (actions r) \<subseteq> set GITHUB_ACTIONS"
    by (simp add: acts)
  have 2: "\<forall>a \<in> set GITHUB_ACTIONS. authLevel a = READ \<longrightarrow> a \<in> set (actions r)"
    by (simp add: acts actionAvailable_def)
  have 3: "\<forall>a \<in> set (actions r). authLevel a = WRITE_LOW \<longrightarrow> writableScopes r \<noteq> []"
    by (auto simp: acts actionAvailable_def split: if_splits)
  have 4: "\<forall>a \<in> set (actions r). authLevel a = WRITE_HIGH \<longrightarrow>
      ''repo'' \<in> set (grantedScopes (metadata r))"
    by (auto simp: acts gr actionAvailable_def list_includes_def split: if_splits)
  have 5: "''github.repo.set_branch_protection'' \<notin> cap_id ` set (actions r)
            \<and> ''repo'' \<in> set (missingScopes r)"
    if only: "grantedScopes (metadata r) = [''read:org'']"
  proof
    have "\<forall>a \<in> set GITHUB_ACTIONS.
        cap_id a = ''github.repo.set_branch_protection'' \<longrightarrow> authLevel a = WRITE_HIGH"
      by (simp add: GITHUB_ACTIONS_def)
    with 1 4 only show "''github.repo.set_branch_protection'' \<notin> cap_id ` set (actions r)"
      by auto
    from miss only gr show "''repo'' \<in> set (missingScopes r)"
      by (auto simp: list_includes_def)
  qed
  from 1 2 3 4 5 show ?thesis by blast
qed

theorem discoverCapabilities_scope_sufficient_witness:
  "\<not> isDemoToken ''ghp_token''
   \<and> (\<exists>r. discoverCapabilities readOrgOnly ''ghp_token'' = Inr r
        \<and> grantedScopes (metadata r) = [''read:org'']
        \<and> map cap_id (actions r) = [''github.repo.get_settings'',
             ''github.repo.get_branch_protection'', ''github.security.verify_baseline'']
        \<and> ''github.repo.set_branch_protection'' \<notin> cap_id ` set (actions r)
        \<and> ''repo'' \<in> set (missingScopes r))"
proof -
  have nd: "\<not> isDemoToken ''ghp_token''"
    by (simp add: isDemoToken_def)
  obtain r where r: "discoverCapabilities readOrgOnly ''ghp_token'' = Inr r"
    and g: "grantedScopes (metadata r) = [''read:org'']"
    and ids: "map cap_id (actions r) = [''github.repo.get_settings'',
             ''github.repo.get_branch_protection'', ''github.security.verify_baseline'']"
    by (simp add: discoverCapabilities_def isDemoToken_def readOrgOnly_def userRequest_def ok_def
        bind_def grantedScopesOf_def headers_get_def trim_def isWhiteSpace_def list_includes_def
        actionAvailable_def GITHUB_ACTIONS_def Let_def)
  note main = discoverCapabilities_scope_sufficient [OF nd r]
  from main g have x: "''github.repo.set_branch_protection'' \<notin> cap_id ` set (actions r)
      \<and> ''repo'' \<in> set (missingScopes r)"
    by (elim conjE impE) (assumption, intro conjI, assumption+)
  show ?thesis
    using nd r g ids x by (intro conjI exI [of _ r]) (elim conjE, assumption)+
qed

section \<open>The demo round trip\<close>

text \<open>
  C6. In demo mode \<^verbatim>\<open>generateOAuthUrl\<close> gives the demo callback address for every state,
  and \<^verbatim>\<open>exchangeCodeForToken("demo")\<close> returns a credential whose \<^verbatim>\<open>expiresAt\<close> is defined
  and later than the clock reading it was computed from, and whose \<^verbatim>\<open>accessToken\<close> starts
  with \<^verbatim>\<open>demo-\<close>, so that \<^verbatim>\<open>isDemoToken\<close> holds of it.
\<close>

theorem demo_round_trip:
  assumes "DEMO_MODE cfg"
  shows "generateOAuthUrl cfg state = ''/api/connections/github/demo-callback?state='' @ state
       \<and> (\<exists>cred t. exchangeCodeForToken cfg post now1 now2 ''demo'' = Inr cred
             \<and> expiresAt cred = Some t \<and> now2 < t
             \<and> (\<exists>rest. accessToken cred = ''demo-'' @ rest)
             \<and> isDemoToken (accessToken cred))"
  using assms
  by (simp add: generateOAuthUrl_def exchangeCodeForToken_def isDemoToken_def)

theorem demo_round_trip_witness:
  "DEMO_MODE demoConfig
   \<and> generateOAuthUrl demoConfig ''s1'' = ''/api/connections/github/demo-callback?state=s1''
   \<and> (\<exists>cred t. exchangeCodeForToken demoConfig noTokenEndpoint 1700000000000 1700000000001 ''demo'' = Inr cred
         \<and> expiresAt cred = Some t \<and> 1700000000001 < t
         \<and> (\<exists>rest. accessToken cred = ''demo-'' @ rest)
         \<and> isDemoToken (accessToken cred))"
proof -
  have d: "DEMO_MODE demoConfig"
    by (simp add: DEMO_MODE_def demoConfig_def)
  from demo_round_trip [OF d, of "''s1''" noTokenEndpoint 1700000000000 1700000000001] d
  show ?thesis by simp
qed

section \<open>The connect and discover routes\<close>

lemma find_map_update:
  assumes "\<And>c. key (upd c) = key c"
  shows "find (\<lambda>c. key c = k) (map (\<lambda>c. if key c = k then upd c else c) xs)
       = map_option upd (find (\<lambda>c. key c = k) xs)"
  using assms by (induction xs) auto

lemma getConnection_updateConnection:
  assumes "\<And>c. conn_id (upd c) = conn_id c"
  shows "getConnection (updateConnection st cid upd) cid = map_option upd (getConnection st cid)"
  unfolding getConnection_def updateConnection_def
  using find_map_update [of conn_id upd cid "connections st", OF assms] by simp

lemma getConnection_conn_id: "getConnection st cid = Some c \<Longrightarrow> conn_id c = cid"
  unfolding getConnection_def by (auto simp: find_Some_iff)

lemma getConnection_createCapabilityProfile:
  "getConnection (fst (createCapabilityProfile st pr)) cid = getConnection st cid"
  by (simp add: getConnection_def createCapabilityProfile_def)

lemma getConnection_createAuditEvent:
  "getConnection (createAuditEvent st ev) cid = getConnection st cid"
  by (simp add: getConnection_def createAuditEvent_def)

lemma getConnection_createConnection:
  "createConnection st c = (st1, c1) \<Longrightarrow> getConnection st1 (conn_id c1) = Some c1"
  by (auto simp: getConnection_def createConnection_def Let_def)

text \<open>The discover handler when it succeeds.\<close>

lemma post_discover_success:
  assumes "post_discover reg now tnow st prov cid = (st', resp)" and "success resp"
  obtains connection connector caps where
    "getConnection st cid = Some connection" and "reg prov = Some connector"
    and "c_discoverCapabilities connector (tokenOrEmpty (conn_accessToken connection)) = Inr caps"
    and "st' = updateConnection (fst (createCapabilityProfile st (profileOf cid caps))) cid
           (\<lambda>c. c\<lparr>lastDiscoveredAt := Some now,
                  conn_authLevel := (if length (writableScopes caps) > 0 then WRITE_LOW else READ)\<rparr>)"
    and "resp = sendResponse tnow (profileOf cid caps) 200"
proof -
  from assms obtain connection where c: "getConnection st cid = Some connection"
    by (auto simp: post_discover_def sendError_def split: option.splits)
  then have cid: "conn_id connection = cid" by (rule getConnection_conn_id)
  from assms c obtain connector where r: "reg prov = Some connector"
    by (auto simp: post_discover_def sendError_def split: option.splits)
  from assms c r obtain caps where
    d: "c_discoverCapabilities connector (tokenOrEmpty (conn_accessToken connection)) = Inr caps"
    by (auto simp: post_discover_def sendError_def split: option.splits sum.splits)
  from assms c r d cid have
    "st' = updateConnection (fst (createCapabilityProfile st (profileOf cid caps))) cid
           (\<lambda>c. c\<lparr>lastDiscoveredAt := Some now,
                  conn_authLevel := (if length (writableScopes caps) > 0 then WRITE_LOW else READ)\<rparr>)"
    and "resp = sendResponse tnow (profileOf cid caps) 200"
    by (auto simp: post_discover_def createCapabilityProfile_def Let_def)
  with c r d that show thesis by blast
qed

lemma post_discover_authLevel:
  assumes "post_discover reg now tnow st prov cid = (st', resp)" and "success resp"
  shows "\<exists>connection connector caps c'.
           getConnection st cid = Some connection \<and> reg prov = Some connector
         \<and> c_discoverCapabilities connector (tokenOrEmpty (conn_accessToken connection)) = Inr caps
         \<and> getConnection st' cid = Some c'
         \<and> conn_authLevel c' = (if writableScopes caps \<noteq> [] then WRITE_LOW else READ)
         \<and> conn_authLevel c' \<noteq> WRITE_HIGH"
proof -
  from assms obtain connection connector caps where
    c: "getConnection st cid = Some connection" and r: "reg prov = Some connector"
    and d: "c_discoverCapabilities connector (tokenOrEmpty (conn_accessToken connection)) = Inr caps"
    and st': "st' = updateConnection (fst (createCapabilityProfile st (profileOf cid caps))) cid
           (\<lambda>c. c\<lparr>lastDiscoveredAt := Some now,
                  conn_authLevel := (if length (writableScopes caps) > 0 then WRITE_LOW else READ)\<rparr>)"
    by (rule post_discover_success)
  let ?upd = "\<lambda>c. c\<lparr>lastDiscoveredAt := Some now,
                  conn_authLevel := (if length (writableScopes caps) > 0 then WRITE_LOW else READ)\<rparr>"
  have "getConnection st' cid = Some (?upd connection)"
    unfolding st'
    by (subst getConnection_updateConnection) (simp_all add: getConnection_createCapabilityProfile c)
  moreover have "conn_authLevel (?upd connection) = (if writableScopes caps \<noteq> [] then WRITE_LOW else READ)"
    by simp
  moreover have "conn_authLevel (?upd connection) \<noteq> WRITE_HIGH"
    by simp
  ultimately show ?thesis using c r d by blast
qed

lemma post_connect_ok:
  assumes "reg prov = Some connector"
    and "c_exchangeCodeForToken connector now1 now2 ''demo'' = Inr tokens"
    and "c_discoverCapabilities connector (accessToken tokens) = Inr caps"
  shows "\<exists>st1 c. post_connect reg now1 now2 now tnow st prov uh = (st1, sendResponse tnow (c, caps) 201)
          \<and> conn_authLevel c = WRITE_HIGH
          \<and> conn_accessToken c = Some (accessToken tokens)
          \<and> getConnection st1 (conn_id c) = Some (c\<lparr>lastDiscoveredAt := Some now\<rparr>)"
proof -
  let ?new = "\<lparr>conn_id = [], tenantId = DEMO_TENANT_ID, userId = userIdOf uh,
                       provider = prov, accountId = Some ''demo-account'',
                       accountName = Some ''Demo GitHub Account'',
                       conn_authLevel = WRITE_HIGH,
                       scopes = [''repo'', ''read:org'', ''admin:repo_hook'', ''read:user''],
                       conn_status = ACTIVE,
                       conn_accessToken = Some (accessToken tokens),
                       conn_refreshToken = refreshToken tokens,
                       tokenExpiresAt = expiresAt tokens, lastDiscoveredAt = None\<rparr>"
  obtain st0 c where cr: "createConnection st ?new = (st0, c)"
    by (cases "createConnection st ?new")
  have g0: "getConnection st0 (conn_id c) = Some c"
    using cr by (rule getConnection_createConnection)
  have flds: "conn_authLevel c = WRITE_HIGH" "conn_accessToken c = Some (accessToken tokens)"
    using cr by (auto simp: createConnection_def Let_def)
  obtain st1 where run: "post_connect reg now1 now2 now tnow st prov uh
      = (createAuditEvent (updateConnection (fst (createCapabilityProfile st0 (profileOf (conn_id c) caps)))
           (conn_id c) (\<lambda>c. c\<lparr>lastDiscoveredAt := Some now\<rparr>)) st1, sendResponse tnow (c, caps) 201)"
    unfolding post_connect_def
    by (simp add: assms cr createCapabilityProfile_def Let_def)
  have g1: "getConnection (createAuditEvent (updateConnection (fst (createCapabilityProfile st0 (profileOf (conn_id c) caps)))
           (conn_id c) (\<lambda>c. c\<lparr>lastDiscoveredAt := Some now\<rparr>)) st1) (conn_id c)
        = Some (c\<lparr>lastDiscoveredAt := Some now\<rparr>)"
    by (simp add: getConnection_createAuditEvent getConnection_updateConnection
        getConnection_createCapabilityProfile g0)
  from run flds g1 show ?thesis by blast
qed

lemma github_exchange_demo:
  "\<exists>tokens. c_exchangeCodeForToken (githubConnector cfg post fetch) now1 now2 ''demo'' = Inr tokens
     \<and> isDemoToken (accessToken tokens)"
  by (simp add: githubConnector_def exchangeCodeForToken_def isDemoToken_def)

lemma github_discover_demo:
  "isDemoToken t \<Longrightarrow> c_discoverCapabilities (githubConnector cfg post fetch) t = Inr demoCapabilities"
  by (simp add: githubConnector_def discover_demo)

lemma tokenOrEmpty_demo: "isDemoToken t \<Longrightarrow> isDemoToken (tokenOrEmpty (Some t))"
  by (simp add: tokenOrEmpty_def)

lemma tokenOrEmpty_None: "isDemoToken (tokenOrEmpty None)"
  by (simp add: tokenOrEmpty_def isDemoToken_def)

lemma post_discover_ok:
  assumes "getConnection st cid = Some connection" and "reg prov = Some connector"
    and "c_discoverCapabilities connector (tokenOrEmpty (conn_accessToken connection)) = Inr caps"
  shows "post_discover reg now tnow st prov cid =
      (updateConnection (fst (createCapabilityProfile st (profileOf cid caps))) cid
           (\<lambda>c. c\<lparr>lastDiscoveredAt := Some now,
                  conn_authLevel := (if length (writableScopes caps) > 0 then WRITE_LOW else READ)\<rparr>),
       sendResponse tnow (profileOf cid caps) 200)"
  using assms getConnection_conn_id [OF assms(1)]
  by (simp add: post_discover_def createCapabilityProfile_def Let_def)

text \<open>
  C9. After a successful \<^verbatim>\<open>POST /api/connections/:provider/discover\<close> the stored
  connection's \<^verbatim>\<open>authLevel\<close> is \<^verbatim>\<open>WRITE_LOW\<close> when the discovery's writable scopes are not
  empty and \<^verbatim>\<open>READ\<close> otherwise, never \<^verbatim>\<open>WRITE_HIGH\<close>. A connection that the demo connect
  endpoint has created at \<^verbatim>\<open>WRITE_HIGH\<close> is at \<^verbatim>\<open>WRITE_LOW\<close> after its first discovery.
\<close>

theorem discover_sets_authLevel:
  "(post_discover reg now tnow st prov cid = (st', resp) \<and> success resp \<longrightarrow>
      (\<exists>connection connector caps c'.
           getConnection st cid = Some connection \<and> reg prov = Some connector
         \<and> c_discoverCapabilities connector (tokenOrEmpty (conn_accessToken connection)) = Inr caps
         \<and> getConnection st' cid = Some c'
         \<and> conn_authLevel c' = (if writableScopes caps \<noteq> [] then WRITE_LOW else READ)
         \<and> conn_authLevel c' \<noteq> WRITE_HIGH))
   \<and> (reg prov = Some (githubConnector cfg post fetch) \<longrightarrow>
      (\<exists>st1 c caps c1 st2 profile c2.
           post_connect reg now1 now2 now tnow st prov uh = (st1, sendResponse tnow (c, caps) 201)
         \<and> getConnection st1 (conn_id c) = Some c1 \<and> conn_authLevel c1 = WRITE_HIGH
         \<and> post_discover reg now' tnow' st1 prov (conn_id c) = (st2, sendResponse tnow' profile 200)
         \<and> getConnection st2 (conn_id c) = Some c2 \<and> conn_authLevel c2 = WRITE_LOW))"
proof (intro conjI impI)
  assume "post_discover reg now tnow st prov cid = (st', resp) \<and> success resp"
  then show "\<exists>connection connector caps c'.
           getConnection st cid = Some connection \<and> reg prov = Some connector
         \<and> c_discoverCapabilities connector (tokenOrEmpty (conn_accessToken connection)) = Inr caps
         \<and> getConnection st' cid = Some c'
         \<and> conn_authLevel c' = (if writableScopes caps \<noteq> [] then WRITE_LOW else READ)
         \<and> conn_authLevel c' \<noteq> WRITE_HIGH"
    using post_discover_authLevel by blast
next
  assume reg: "reg prov = Some (githubConnector cfg post fetch)"
  obtain tokens where ex: "c_exchangeCodeForToken (githubConnector cfg post fetch) now1 now2 ''demo'' = Inr tokens"
    and demo: "isDemoToken (accessToken tokens)"
    using github_exchange_demo by blast
  note disc = github_discover_demo [OF demo, of cfg post fetch]
  from post_connect_ok [where reg = reg and prov = prov, OF reg ex disc] obtain st1 c where
    pc: "post_connect reg now1 now2 now tnow st prov uh = (st1, sendResponse tnow (c, demoCapabilities) 201)"
    and high: "conn_authLevel c = WRITE_HIGH"
    and tok: "conn_accessToken c = Some (accessToken tokens)"
    and g1: "getConnection st1 (conn_id c) = Some (c\<lparr>lastDiscoveredAt := Some now\<rparr>)"
    by blast
  let ?c1 = "c\<lparr>lastDiscoveredAt := Some now\<rparr>"
  have disc1: "c_discoverCapabilities (githubConnector cfg post fetch)
      (tokenOrEmpty (conn_accessToken ?c1)) = Inr demoCapabilities"
    using tok demo by (simp add: github_discover_demo tokenOrEmpty_demo)
  note pd = post_discover_ok [where reg = reg and prov = prov, OF g1 reg disc1, of now' tnow']
  let ?upd = "\<lambda>c. c\<lparr>lastDiscoveredAt := Some now',
                  conn_authLevel := (if length (writableScopes demoCapabilities) > 0 then WRITE_LOW else READ)\<rparr>"
  let ?st2 = "updateConnection (fst (createCapabilityProfile st1 (profileOf (conn_id c) demoCapabilities)))
      (conn_id c) ?upd"
  have g2: "getConnection ?st2 (conn_id c) = Some (?upd ?c1)"
    by (subst getConnection_updateConnection) (simp_all add: getConnection_createCapabilityProfile g1)
  have low: "conn_authLevel (?upd ?c1) = WRITE_LOW"
    by (simp add: demoCapabilities_def)
  have high1: "conn_authLevel ?c1 = WRITE_HIGH"
    using high by simp
  show "\<exists>st1 c caps c1 st2 profile c2.
           post_connect reg now1 now2 now tnow st prov uh = (st1, sendResponse tnow (c, caps) 201)
         \<and> getConnection st1 (conn_id c) = Some c1 \<and> conn_authLevel c1 = WRITE_HIGH
         \<and> post_discover reg now' tnow' st1 prov (conn_id c) = (st2, sendResponse tnow' profile 200)
         \<and> getConnection st2 (conn_id c) = Some c2 \<and> conn_authLevel c2 = WRITE_LOW"
    using pc g1 high1 pd g2 low by blast
qed


theorem discover_sets_authLevel_witness:
  "\<exists>st1 c caps c1 st2 profile c2 connector caps2.
       post_connect (getConnector demoConfig noTokenEndpoint offline) 1 2 3 4 emptyStore ''github'' None
         = (st1, sendResponse 4 (c, caps) 201)
     \<and> getConnection st1 (conn_id c) = Some c1 \<and> conn_authLevel c1 = WRITE_HIGH
     \<and> post_discover (getConnector demoConfig noTokenEndpoint offline) 5 6 st1 ''github'' (conn_id c)
         = (st2, sendResponse 6 profile 200)
     \<and> success (sendResponse 6 profile 200)
     \<and> getConnector demoConfig noTokenEndpoint offline ''github'' = Some connector
     \<and> c_discoverCapabilities connector (tokenOrEmpty (conn_accessToken c1)) = Inr caps2
     \<and> writableScopes caps2 \<noteq> []
     \<and> getConnection st2 (conn_id c) = Some c2 \<and> conn_authLevel c2 = WRITE_LOW"
proof -
  let ?reg = "getConnector demoConfig noTokenEndpoint offline"
  have reg: "?reg ''github'' = Some (githubConnector demoConfig noTokenEndpoint offline)"
    by (simp add: getConnector_def)
  note main = discover_sets_authLevel [where reg = ?reg and prov = "''github''"
      and cfg = demoConfig and post = noTokenEndpoint and fetch = offline]
  from main [where ?now1.0 = 1 and ?now2.0 = 2 and now = 3 and tnow = 4 and st = emptyStore
      and uh = None and now' = 5 and tnow' = 6, THEN conjunct2, rule_format, OF reg]
  obtain st1 c caps c1 st2 profile c2 where
    pc: "post_connect ?reg 1 2 3 4 emptyStore ''github'' None = (st1, sendResponse 4 (c, caps) 201)"
    and g1: "getConnection st1 (conn_id c) = Some c1" and h: "conn_authLevel c1 = WRITE_HIGH"
    and pd: "post_discover ?reg 5 6 st1 ''github'' (conn_id c) = (st2, sendResponse 6 profile 200)"
    and g2: "getConnection st2 (conn_id c) = Some c2" and l: "conn_authLevel c2 = WRITE_LOW"
    by blast
  have ok: "success (sendResponse 6 profile 200)"
    by (simp add: sendResponse_def)
  from main [where now = 5 and tnow = 6 and st = st1 and cid = "conn_id c" and st' = st2
      and resp = "sendResponse 6 profile 200", THEN conjunct1, rule_format, OF conjI [OF pd ok]]
  obtain connection connector caps2 c' where
    a: "getConnection st1 (conn_id c) = Some connection"
    and b: "?reg ''github'' = Some connector"
    and d: "c_discoverCapabilities connector (tokenOrEmpty (conn_accessToken connection)) = Inr caps2"
    and e: "getConnection st2 (conn_id c) = Some c'"
    and f: "conn_authLevel c' = (if writableScopes caps2 \<noteq> [] then WRITE_LOW else READ)"
    by blast
  from a g1 have eq: "connection = c1" by simp
  from e g2 have "c' = c2" by simp
  with f l have w: "writableScopes caps2 \<noteq> []" by (auto split: if_splits)
  from pc g1 h pd ok b d eq w g2 l show ?thesis by blast
qed

text \<open>
  C10. For the empty token and for every token that starts with \<^verbatim>\<open>demo-\<close>,
  \<^verbatim>\<open>discoverCapabilities\<close> returns, with the eight declared actions, no missing scope and
  \<^verbatim>\<open>demoMode\<close> true. The discover route passes the empty token for a connection without a
  stored access token, and answers 200 with the full profile.
\<close>

theorem demo_token_full_capabilities:
  "(token = [] \<or> token = ''demo-'' @ rest \<longrightarrow>
      (\<exists>r. discoverCapabilities fetch token = Inr r
         \<and> actions r = getActions \<and> length (actions r) = 8
         \<and> missingScopes r = [] \<and> demoMode (metadata r) = Some True))
   \<and> (getConnection st cid = Some connection
       \<and> (conn_accessToken connection = None \<or> conn_accessToken connection = Some [])
       \<and> reg prov = Some (githubConnector cfg post fetch) \<longrightarrow>
      (\<exists>st' profile. post_discover reg now tnow st prov cid = (st', sendResponse tnow profile 200)
         \<and> profile_actions profile = getActions \<and> length (profile_actions profile) = 8
         \<and> profile_limitations profile = []))"
proof (intro conjI impI)
  assume "token = [] \<or> token = ''demo-'' @ rest"
  then have "isDemoToken token"
    by (auto simp: isDemoToken_def)
  then have "discoverCapabilities fetch token = Inr demoCapabilities"
    by (rule discover_demo)
  moreover have "actions demoCapabilities = getActions" "length (actions demoCapabilities) = 8"
    "missingScopes demoCapabilities = []" "demoMode (metadata demoCapabilities) = Some True"
    by (simp_all add: demoCapabilities_def getActions_def length_GITHUB_ACTIONS)
  ultimately show "\<exists>r. discoverCapabilities fetch token = Inr r
         \<and> actions r = getActions \<and> length (actions r) = 8
         \<and> missingScopes r = [] \<and> demoMode (metadata r) = Some True"
    by blast
next
  assume a: "getConnection st cid = Some connection
       \<and> (conn_accessToken connection = None \<or> conn_accessToken connection = Some [])
       \<and> reg prov = Some (githubConnector cfg post fetch)"
  then have c: "getConnection st cid = Some connection"
    and reg: "reg prov = Some (githubConnector cfg post fetch)"
    and t: "tokenOrEmpty (conn_accessToken connection) = []"
    by (auto simp: tokenOrEmpty_def)
  have d: "c_discoverCapabilities (githubConnector cfg post fetch)
      (tokenOrEmpty (conn_accessToken connection)) = Inr demoCapabilities"
    unfolding t by (rule github_discover_demo) (simp add: isDemoToken_def)
  note pd = post_discover_ok [where reg = reg and prov = prov, OF c reg d, of now tnow]
  moreover have "profile_actions (profileOf cid demoCapabilities) = getActions"
    "length (profile_actions (profileOf cid demoCapabilities)) = 8"
    "profile_limitations (profileOf cid demoCapabilities) = []"
    by (simp_all add: profileOf_def demoCapabilities_def getActions_def length_GITHUB_ACTIONS)
  ultimately show "\<exists>st' profile. post_discover reg now tnow st prov cid = (st', sendResponse tnow profile 200)
         \<and> profile_actions profile = getActions \<and> length (profile_actions profile) = 8
         \<and> profile_limitations profile = []"
    by blast
qed

theorem demo_token_full_capabilities_witness:
  "(\<exists>r. discoverCapabilities offline [] = Inr r
         \<and> actions r = getActions \<and> length (actions r) = 8
         \<and> missingScopes r = [] \<and> demoMode (metadata r) = Some True)
   \<and> (\<exists>r. discoverCapabilities offline ''demo-access-token-17'' = Inr r
         \<and> actions r = getActions \<and> length (actions r) = 8
         \<and> missingScopes r = [] \<and> demoMode (metadata r) = Some True)
   \<and> getConnection storedStore ''connection-0'' = Some storedConnection
   \<and> conn_accessToken storedConnection = None
   \<and> (\<exists>st' profile. post_discover (getConnector demoConfig noTokenEndpoint offline) 1 2
            storedStore ''github'' ''connection-0'' = (st', sendResponse 2 profile 200)
         \<and> profile_actions profile = getActions \<and> length (profile_actions profile) = 8
         \<and> profile_limitations profile = [])"
proof -
  have g: "getConnection storedStore ''connection-0'' = Some storedConnection"
    by (simp add: getConnection_def storedStore_def storedConnection_def)
  have n: "conn_accessToken storedConnection = None"
    by (simp add: storedConnection_def)
  have reg: "getConnector demoConfig noTokenEndpoint offline ''github''
      = Some (githubConnector demoConfig noTokenEndpoint offline)"
    by (simp add: getConnector_def)
  have 1: "\<exists>r. discoverCapabilities offline [] = Inr r
         \<and> actions r = getActions \<and> length (actions r) = 8
         \<and> missingScopes r = [] \<and> demoMode (metadata r) = Some True"
    using demo_token_full_capabilities [where token = "[]" and fetch = offline, THEN conjunct1]
    by simp
  have 2: "\<exists>r. discoverCapabilities offline ''demo-access-token-17'' = Inr r
         \<and> actions r = getActions \<and> length (actions r) = 8
         \<and> missingScopes r = [] \<and> demoMode (metadata r) = Some True"
    using demo_token_full_capabilities [where token = "''demo-access-token-17''"
        and rest = "''access-token-17''" and fetch = offline, THEN conjunct1]
    by simp
  have 3: "\<exists>st' profile. post_discover (getConnector demoConfig noTokenEndpoint offline) 1 2
            storedStore ''github'' ''connection-0'' = (st', sendResponse 2 profile 200)
         \<and> profile_actions profile = getActions \<and> length (profile_actions profile) = 8
         \<and> profile_limitations profile = []"
    using demo_token_full_capabilities [where reg = "getConnector demoConfig noTokenEndpoint offline"
        and prov = "''github''" and st = storedStore and cid = "''connection-0''"
        and connection = storedConnection and cfg = demoConfig and post = noTokenEndpoint
        and fetch = offline and now = 1 and tnow = 2, THEN conjunct2, rule_format,
        OF conjI [OF g conjI [OF disjI1 [OF n] reg]]]
    by this
  from 1 2 g n 3 show ?thesis by (intro conjI)
qed

section \<open>Executing an action\<close>

lemma rollback_YES_ids:
  assumes "a \<in> set getActions" and "rollback a = YES"
  shows "cap_id a = ''github.repo.set_branch_protection''
       \<or> cap_id a = ''github.repo.enable_vulnerability_alerts''
       \<or> cap_id a = ''github.repo.enable_automated_security_fixes''
       \<or> cap_id a = ''github.security.apply_baseline''"
  using assms by (auto simp: getActions_def GITHUB_ACTIONS_def)

lemma dry_set_branch_protection:
  assumes "executeAction f isoNow ''github.repo.set_branch_protection'' p = Inr r" and "dryRun p"
  shows "executionMode r = PLAN_ONLY \<and> isPreview (output_value r) \<and> snapshot r \<noteq> None
       \<and> (if isDemoToken (ctx_accessToken (params_context p)) then snapshot r = Some mockCurrentState
           else \<exists>target cur.
              pick (params_input p) [(''owner'', ''owner''), (''repo'', ''repo''), (''branch'', ''branch'')] = Inr target
            \<and> getBranchProtection f isoNow (params_context p) (JObj target) = Inr cur
            \<and> snapshot r = Some (output_value cur))"
proof (cases "isDemoToken (ctx_accessToken (params_context p))")
  case True
  with assms show ?thesis
    by (auto simp: executeAction_def setBranchProtection_def setBranchProtectionMock_def Let_def)
next
  case False
  with assms show ?thesis
    by (auto simp: executeAction_def setBranchProtection_def Let_def bind_Inr)
qed

lemma dry_enable_vulnerability_alerts:
  assumes "executeAction f isoNow ''github.repo.enable_vulnerability_alerts'' p = Inr r" and "dryRun p"
  shows "executionMode r = PLAN_ONLY \<and> isPreview (output_value r) \<and> snapshot r = None"
  using assms
  by (auto simp: executeAction_def enableVulnerabilityAlerts_def enableVulnerabilityAlertsMock_def
      Let_def split: if_splits)

lemma dry_enable_automated_security_fixes:
  assumes "executeAction f isoNow ''github.repo.enable_automated_security_fixes'' p = Inr r" and "dryRun p"
  shows "executionMode r = PLAN_ONLY \<and> isPreview (output_value r) \<and> snapshot r = None"
  using assms
  by (auto simp: executeAction_def enableAutomatedSecurityFixes_def
      enableAutomatedSecurityFixesMock_def Let_def split: if_splits)

lemma dry_apply_baseline:
  assumes "executeAction f isoNow ''github.security.apply_baseline'' p = Inr r" and "dryRun p"
  shows "executionMode r = PLAN_ONLY \<and> isPreview (output_value r) \<and> snapshot r = None"
  using assms
  by (auto simp: executeAction_def applySecurityBaselineMock_def Let_def split: if_splits)

lemma demo_dry_returns:
  assumes "isDemoToken (ctx_accessToken (params_context p))" and "dryRun p"
    and "i = ''github.repo.set_branch_protection''
       \<or> i = ''github.repo.enable_vulnerability_alerts''
       \<or> i = ''github.repo.enable_automated_security_fixes''
       \<or> i = ''github.security.apply_baseline''"
  shows "\<exists>r. executeAction f isoNow i p = Inr r"
  using assms(3)
proof (elim disjE)
  assume "i = ''github.repo.set_branch_protection''"
  with assms(1,2) show ?thesis
    by (simp add: executeAction_def setBranchProtection_def setBranchProtectionMock_def Let_def)
next
  assume "i = ''github.repo.enable_vulnerability_alerts''"
  with assms(1,2) show ?thesis
    by (simp add: executeAction_def enableVulnerabilityAlerts_def
        enableVulnerabilityAlertsMock_def Let_def)
next
  assume "i = ''github.repo.enable_automated_security_fixes''"
  with assms(1,2) show ?thesis
    by (simp add: executeAction_def enableAutomatedSecurityFixes_def
        enableAutomatedSecurityFixesMock_def Let_def)
next
  assume "i = ''github.security.apply_baseline''"
  with assms(1,2) show ?thesis
    by (simp add: executeAction_def applySecurityBaselineMock_def Let_def)
qed

text \<open>
  C3, as the code has it. For a declared action with \<^verbatim>\<open>rollback: YES\<close>, a dry run with a
  demo credential returns; whenever a dry run returns, its \<^verbatim>\<open>executionMode\<close> is \<^verbatim>\<open>PLAN_ONLY\<close>
  and its output is a \<^verbatim>\<open>wouldApply\<close>/\<^verbatim>\<open>wouldEnable\<close> preview; the snapshot is defined for
  \<^verbatim>\<open>github.repo.set_branch_protection\<close> and for no other action, and there it is the
  branch-protection state before the change: the mock's current state with a demo
  credential, what \<^verbatim>\<open>getBranchProtection\<close> reads otherwise.
\<close>

theorem dry_run_preview:
  assumes "a \<in> set getActions" and "rollback a = YES" and "dryRun p"
  shows "(isDemoToken (ctx_accessToken (params_context p)) \<longrightarrow>
            (\<exists>r. executeAction f isoNow (cap_id a) p = Inr r))
       \<and> (\<forall>r. executeAction f isoNow (cap_id a) p = Inr r \<longrightarrow>
            executionMode r = PLAN_ONLY \<and> isPreview (output_value r)
          \<and> (snapshot r \<noteq> None \<longleftrightarrow> cap_id a = ''github.repo.set_branch_protection'')
          \<and> (cap_id a = ''github.repo.set_branch_protection'' \<longrightarrow>
               (if isDemoToken (ctx_accessToken (params_context p))
                then snapshot r = Some mockCurrentState
                else \<exists>target cur.
                   pick (params_input p) [(''owner'', ''owner''), (''repo'', ''repo''), (''branch'', ''branch'')] = Inr target
                 \<and> getBranchProtection f isoNow (params_context p) (JObj target) = Inr cur
                 \<and> snapshot r = Some (output_value cur))))"
proof (intro conjI allI impI)
  assume "isDemoToken (ctx_accessToken (params_context p))"
  then show "\<exists>r. executeAction f isoNow (cap_id a) p = Inr r"
    using assms(3) rollback_YES_ids [OF assms(1,2)] by (rule demo_dry_returns)
next
  fix r assume r: "executeAction f isoNow (cap_id a) p = Inr r"
  from rollback_YES_ids [OF assms(1,2)]
  have "executionMode r = PLAN_ONLY \<and> isPreview (output_value r)
      \<and> (snapshot r \<noteq> None \<longleftrightarrow> cap_id a = ''github.repo.set_branch_protection'')"
  proof (elim disjE)
    assume i: "cap_id a = ''github.repo.set_branch_protection''"
    from dry_set_branch_protection [OF r [unfolded i] assms(3)] i show ?thesis by simp
  next
    assume i: "cap_id a = ''github.repo.enable_vulnerability_alerts''"
    from dry_enable_vulnerability_alerts [OF r [unfolded i] assms(3)] i show ?thesis by simp
  next
    assume i: "cap_id a = ''github.repo.enable_automated_security_fixes''"
    from dry_enable_automated_security_fixes [OF r [unfolded i] assms(3)] i show ?thesis by simp
  next
    assume i: "cap_id a = ''github.security.apply_baseline''"
    from dry_apply_baseline [OF r [unfolded i] assms(3)] i show ?thesis by simp
  qed
  then show "executionMode r = PLAN_ONLY" and "isPreview (output_value r)"
    and "snapshot r \<noteq> None \<longleftrightarrow> cap_id a = ''github.repo.set_branch_protection''"
    by blast+
next
  fix r assume r: "executeAction f isoNow (cap_id a) p = Inr r"
    and i: "cap_id a = ''github.repo.set_branch_protection''"
  from dry_set_branch_protection [OF r [unfolded i] assms(3)]
  show "if isDemoToken (ctx_accessToken (params_context p))
                then snapshot r = Some mockCurrentState
                else \<exists>target cur.
                   pick (params_input p) [(''owner'', ''owner''), (''repo'', ''repo''), (''branch'', ''branch'')] = Inr target
                 \<and> getBranchProtection f isoNow (params_context p) (JObj target) = Inr cur
                 \<and> snapshot r = Some (output_value cur)"
    by blast
qed


theorem dry_run_preview_witness:
  "GITHUB_ACTIONS ! 2 \<in> set getActions
   \<and> cap_id (GITHUB_ACTIONS ! 2) = ''github.repo.set_branch_protection''
   \<and> rollback (GITHUB_ACTIONS ! 2) = YES \<and> dryRun dryParams
   \<and> isDemoToken (ctx_accessToken (params_context dryParams))
   \<and> (\<exists>r. executeAction offline isoSample ''github.repo.set_branch_protection'' dryParams = Inr r
         \<and> executionMode r = PLAN_ONLY \<and> isPreview (output_value r)
         \<and> snapshot r = Some mockCurrentState)"
proof -
  have a: "GITHUB_ACTIONS ! 2 \<in> set getActions"
    by (simp add: getActions_def GITHUB_ACTIONS_def)
  have i: "cap_id (GITHUB_ACTIONS ! 2) = ''github.repo.set_branch_protection''"
    and y: "rollback (GITHUB_ACTIONS ! 2) = YES"
    by (simp_all add: GITHUB_ACTIONS_def)
  have d: "dryRun dryParams"
    by (simp add: dryParams_def)
  have t: "isDemoToken (ctx_accessToken (params_context dryParams))"
    by (simp add: dryParams_def demoContext_def isDemoToken_def)
  note main = dry_run_preview [OF a y d, of offline isoSample, unfolded i]
  from main t obtain r where
    r: "executeAction offline isoSample ''github.repo.set_branch_protection'' dryParams = Inr r"
    by blast
  with main t have "executionMode r = PLAN_ONLY" "isPreview (output_value r)"
    "snapshot r = Some mockCurrentState"
    by auto
  with a i y d t r show ?thesis by blast
qed

text \<open>
  C3 as stated fails: \<^verbatim>\<open>github.repo.enable_vulnerability_alerts\<close> declares
  \<^verbatim>\<open>rollback: YES\<close>, and its dry run returns no snapshot.
\<close>

theorem dry_run_snapshot_counterexample:
  "GITHUB_ACTIONS ! 3 \<in> set getActions
   \<and> cap_id (GITHUB_ACTIONS ! 3) = ''github.repo.enable_vulnerability_alerts''
   \<and> rollback (GITHUB_ACTIONS ! 3) = YES \<and> dryRun dryParams
   \<and> executeAction offline isoSample ''github.repo.enable_vulnerability_alerts'' dryParams
       = Inr \<lparr>output_value = JObj [(''wouldEnable'', JBool True),
                                    (''feature'', JStr ''vulnerability_alerts'')],
               evidence = JObj [(''dryRun'', JBool True)],
               snapshot = None, rollbackPlan = None, executionMode = PLAN_ONLY\<rparr>"
  by (simp add: getActions_def GITHUB_ACTIONS_def dryParams_def executeAction_def
      enableVulnerabilityAlerts_def enableVulnerabilityAlertsMock_def
      demoContext_def isDemoToken_def)


lemma declared_ids:
  "cap_id ` set getActions = {''github.repo.get_settings'', ''github.repo.get_branch_protection'',
     ''github.repo.set_branch_protection'', ''github.repo.enable_vulnerability_alerts'',
     ''github.repo.enable_automated_security_fixes'', ''github.security.apply_baseline'',
     ''github.security.verify_baseline'', ''github.security.rollback_baseline''}"
  by (simp add: getActions_def GITHUB_ACTIONS_def)





















text \<open>
  C4 at its failing inputs. The real run of \<^verbatim>\<open>github.repo.enable_vulnerability_alerts\<close>
  returns a rollback plan whose action is not declared, and the real run of
  \<^verbatim>\<open>github.security.apply_baseline\<close> one whose action is declared; \<^verbatim>\<open>executeAction\<close> fails
  on both with the unknown-action error.
\<close>

theorem rollbackPlan_target_not_executable:
  "rollback (GITHUB_ACTIONS ! 3) = YES
   \<and> cap_id (GITHUB_ACTIONS ! 3) = ''github.repo.enable_vulnerability_alerts''
   \<and> executeAction offline isoSample ''github.repo.enable_vulnerability_alerts'' realParams
       = Inr \<lparr>output_value = JObj [(''enabled'', JBool True),
                                    (''feature'', JStr ''vulnerability_alerts'')],
               evidence = JObj [(''enabledAt'', JStr isoSample), (''demoMode'', JBool True)],
               snapshot = None,
               rollbackPlan = Some \<lparr>action = ''github.repo.disable_vulnerability_alerts'',
                                     params = repoInput\<rparr>,
               executionMode = AUTO\<rparr>
   \<and> ''github.repo.disable_vulnerability_alerts'' \<notin> cap_id ` set getActions
   \<and> executeAction offline isoSample ''github.repo.disable_vulnerability_alerts''
        \<lparr>params_context = demoContext, params_input = repoInput, dryRun = False\<rparr>
       = Inl (Error ''Unknown action: github.repo.disable_vulnerability_alerts'')
   \<and> rollback (GITHUB_ACTIONS ! 5) = YES
   \<and> cap_id (GITHUB_ACTIONS ! 5) = ''github.security.apply_baseline''
   \<and> map_option action (case executeAction offline isoSample ''github.security.apply_baseline'' realParams of
        Inl e \<Rightarrow> None | Inr r \<Rightarrow> rollbackPlan r) = Some ''github.security.rollback_baseline''
   \<and> executeAction offline isoSample ''github.security.rollback_baseline''
        \<lparr>params_context = demoContext, params_input = repoInput, dryRun = False\<rparr>
       = Inl (Error ''Unknown action: github.security.rollback_baseline'')"
  by (simp add: GITHUB_ACTIONS_def declared_ids realParams_def demoContext_def isDemoToken_def
      executeAction_def enableVulnerabilityAlerts_def
      enableVulnerabilityAlertsMock_def applySecurityBaselineMock_def Let_def)

section \<open>The rollback route\<close>

lemma post_rollback_caught:
  "ex st rid (userIdOf uh) = (st1, Inl e) \<Longrightarrow>
     post_rollback ex tnow st rid uh = (st1, sendError tnow (message e) 400)"
  by (simp add: post_rollback_def)

text \<open>
  C7 at its failing input. For a run the store lacks, \<^verbatim>\<open>executeRollback\<close> fails and the
  rollback route answers 400 with the failure's message, while \<^verbatim>\<open>GET /api/runs/:id\<close>
  answers 404; whatever \<^verbatim>\<open>executeRollback\<close> does, the rollback route never answers 404.
\<close>

theorem rollback_route_absent_run:
  "post_rollback (executeRollback found) tnow emptyStore rid uh
     = (emptyStore, sendError tnow ''RunNotFoundError'' 400)
   \<and> get_run tnow emptyStore rid = sendError tnow ''Run not found'' 404
   \<and> http_status (snd (post_rollback ex tnow st rid uh)) \<noteq> 404"
proof -
  have "getRun emptyStore rid = None"
    by (simp add: getRun_def emptyStore_def)
  then have 1: "post_rollback (executeRollback found) tnow emptyStore rid uh
     = (emptyStore, sendError tnow ''RunNotFoundError'' 400)"
    and 2: "get_run tnow emptyStore rid = sendError tnow ''Run not found'' 404"
    by (simp_all add: post_rollback_def executeRollback_def get_run_def)
  obtain st1 res where r: "ex st rid (userIdOf uh) = (st1, res)"
    by (cases "ex st rid (userIdOf uh)")
  have 3: "http_status (snd (post_rollback ex tnow st rid uh)) \<noteq> 404"
    by (cases res) (simp_all add: post_rollback_def r sendError_def sendResponse_def)
  from 1 2 3 show ?thesis by (intro conjI)
qed

section \<open>Executing a plan\<close>

lemma runSteps_stops:
  assumes "list_all2 (\<lambda>s r. exec (step_actionId s)
             \<lparr>params_context = ctx, params_input = step_input s, dryRun = dry\<rparr> = Inr r) pre rs"
    and "exec (step_actionId b) \<lparr>params_context = ctx, params_input = step_input b, dryRun = dry\<rparr> = Inl e"
  shows "runSteps exec ctx dry (pre @ b # post)
       = (map StepSuccess rs @ [StepFailure (message e)], pre @ [b])"
  using assms
proof (induction pre arbitrary: rs)
  case Nil
  then show ?case by simp
next
  case (Cons s pre)
  then obtain r rs' where rs: "rs = r # rs'"
    and r: "exec (step_actionId s) \<lparr>params_context = ctx, params_input = step_input s, dryRun = dry\<rparr> = Inr r"
    and rest: "list_all2 (\<lambda>s r. exec (step_actionId s)
             \<lparr>params_context = ctx, params_input = step_input s, dryRun = dry\<rparr> = Inr r) pre rs'"
    by (auto simp: list_all2_Cons1)
  from Cons.IH [OF rest Cons.prems(2)] r rs show ?case by simp
qed

lemma firstFailure_after_successes:
  "firstFailure (map StepSuccess rs @ [StepFailure m]) = Some m"
  by (induction rs) (simp_all add: firstFailure_def List.map_filter_simps)

text \<open>
  C5. When the steps before \<open>b\<close> succeed and \<open>b\<close> fails, \<^verbatim>\<open>executePlan\<close> invokes the
  steps up to \<open>b\<close> and no later one, marks the run \<^verbatim>\<open>FAILED\<close> with the failure's message
  as its error, and records one entry per attempted step: the successes, then the
  failure.
\<close>

theorem executePlan_stops_at_first_failure:
  assumes "conn_status connection = ACTIVE"
    and "steps plan = pre @ b # post"
    and "ctx = \<lparr>ctx_accessToken = tokenOrEmpty (conn_accessToken connection)\<rparr>"
    and "list_all2 (\<lambda>s r. exec (step_actionId s)
             \<lparr>params_context = ctx, params_input = step_input s, dryRun = dry\<rparr> = Inr r) pre rs"
    and "exec (step_actionId b) \<lparr>params_context = ctx, params_input = step_input b, dryRun = dry\<rparr> = Inl e"
  shows "\<exists>st' run. executePlanTraced exec rid st plan connection dry = (st', run, pre @ [b])
        \<and> executePlan exec rid st plan connection dry = (st', run)
        \<and> run_status run = FAILED \<and> \<not> run_success run
        \<and> run_error run = Some (message e)
        \<and> stepResults run = map StepSuccess rs @ [StepFailure (message e)]
        \<and> length (stepResults run) = length pre + 1
        \<and> getRun st' rid = Some run"
proof -
  have len: "length rs = length pre"
    using assms(4) by (simp add: list_all2_lengthD)
  have rs: "runSteps exec \<lparr>ctx_accessToken = tokenOrEmpty (conn_accessToken connection)\<rparr> dry (steps plan)
       = (map StepSuccess rs @ [StepFailure (message e)], pre @ [b])"
    unfolding assms(2) using assms(4,5) unfolding assms(3) by (rule runSteps_stops)
  show ?thesis
    by (simp add: executePlan_def executePlanTraced_def assms(1) rs firstFailure_after_successes
        len getRun_def createRun_def Let_def)
qed

theorem executePlan_stops_at_first_failure_witness:
  "\<exists>st' run ra. executePlanTraced (executeAction offline ''2026-01-01T00:00:00.000Z'') ''run-0''
          storedStore planABC storedConnection False = (st', run, [stepA, stepB])
     \<and> steps planABC = [stepA, stepB, stepC]
     \<and> stepResults run = [StepSuccess ra,
          StepFailure ''Unknown action: github.security.rollback_baseline'']
     \<and> length (stepResults run) = 2
     \<and> run_status run = FAILED
     \<and> run_error run = Some ''Unknown action: github.security.rollback_baseline''"
proof -
  let ?exec = "executeAction offline ''2026-01-01T00:00:00.000Z''"
  let ?ctx = "\<lparr>ctx_accessToken = tokenOrEmpty (conn_accessToken storedConnection)\<rparr>"
  have act: "conn_status storedConnection = ACTIVE"
    by (simp add: storedConnection_def)
  have st: "steps planABC = [stepA] @ stepB # [stepC]"
    by (simp add: planABC_def)
  obtain ra where a: "?exec (step_actionId stepA)
      \<lparr>params_context = ?ctx, params_input = step_input stepA, dryRun = False\<rparr> = Inr ra"
    by (simp add: executeAction_def stepA_def getBranchProtection_def getBranchProtectionMock_def
        storedConnection_def tokenOrEmpty_def isDemoToken_def)
  then have pre: "list_all2 (\<lambda>s r. ?exec (step_actionId s)
      \<lparr>params_context = ?ctx, params_input = step_input s, dryRun = False\<rparr> = Inr r) [stepA] [ra]"
    by simp
  have b: "?exec (step_actionId stepB)
      \<lparr>params_context = ?ctx, params_input = step_input stepB, dryRun = False\<rparr>
     = Inl (Error ''Unknown action: github.security.rollback_baseline'')"
    by (simp add: executeAction_def stepB_def)
  from executePlan_stops_at_first_failure [OF act st refl pre b, of "''run-0''" storedStore]
  show ?thesis
    by (auto simp: planABC_def)
qed

section \<open>The plan's risk level\<close>

lemma RiskLevel_LOW_least: "LOW \<le> (x :: RiskLevel)"
  by (simp add: less_eq_RiskLevel_def)

lemma foldl_risk_Max:
  "foldl (\<lambda>acc c. if acc \<le> risk c then risk c else acc) a caps = Max (insert a (risk ` set caps))"
proof (induction caps arbitrary: a)
  case Nil
  show ?case by simp
next
  case (Cons c caps)
  have step: "(if a \<le> risk c then risk c else a) = max a (risk c)"
    by (simp add: max_def)
  have "Max (insert (max a (risk c)) (risk ` set caps)) = Max (insert a (insert (risk c) (risk ` set caps)))"
    by (cases "caps = []") (simp_all add: max.assoc)
  with Cons.IH [of "max a (risk c)"] step show ?case
    by simp
qed

lemma aggregateRisk_Max:
  assumes "caps \<noteq> []"
  shows "aggregateRisk caps = Max (risk ` set caps)"
proof -
  have "aggregateRisk caps = Max (insert LOW (risk ` set caps))"
    by (simp add: aggregateRisk_def foldl_risk_Max)
  also have "\<dots> = max LOW (Max (risk ` set caps))"
    using assms by simp
  also have "\<dots> = Max (risk ` set caps)"
    by (simp add: max_def RiskLevel_LOW_least)
  finally show ?thesis .
qed

lemma generatePlan_Planned:
  assumes "generatePlan select declared st intent ctx = Planned plan"
  obtains tpl where "select intent = Some tpl" and "steps plan = tpl_steps tpl"
    and "riskLevel plan = aggregateRisk (resolveSteps declared (tpl_steps tpl))"
  using assms unfolding generatePlan_def
  by (auto simp: Let_def split: option.splits if_splits)

text \<open>
  C8. The \<^verbatim>\<open>riskLevel\<close> of a generated plan is the maximum of the \<^verbatim>\<open>risk\<close> of the
  capabilities its steps resolve to.
\<close>

theorem plan_riskLevel_is_maximum:
  assumes "generatePlan select declared st intent ctx = Planned plan"
    and "resolveSteps declared (steps plan) \<noteq> []"
  shows "riskLevel plan = Max (risk ` set (resolveSteps declared (steps plan)))"
proof -
  from assms(1) obtain tpl where "select intent = Some tpl" and "steps plan = tpl_steps tpl"
    and "riskLevel plan = aggregateRisk (resolveSteps declared (tpl_steps tpl))"
    by (rule generatePlan_Planned)
  then have "riskLevel plan = aggregateRisk (resolveSteps declared (steps plan))"
    by simp
  with assms(2) show ?thesis
    by (simp add: aggregateRisk_Max)
qed

theorem plan_riskLevel_is_maximum_witness:
  "\<exists>plan. generatePlan hardenCatalog getActions storedStore ''protect main''
        \<lparr>ctx_userId = DEMO_USER_ID, ctx_tenantId = DEMO_TENANT_ID,
         ctx_connectionId = Some ''connection-0'', ctx_provider = Some ''github''\<rparr> = Planned plan
     \<and> map risk (resolveSteps getActions (steps plan)) = [LOW, MED]
     \<and> riskLevel plan = Max (risk ` set (resolveSteps getActions (steps plan)))
     \<and> riskLevel plan = MED"
proof -
  let ?ctx = "\<lparr>ctx_userId = DEMO_USER_ID, ctx_tenantId = DEMO_TENANT_ID,
         ctx_connectionId = Some ''connection-0'', ctx_provider = Some ''github''\<rparr>"
  have res: "map risk (resolveSteps getActions (tpl_steps hardenTemplate)) = [LOW, MED]"
    by (simp add: resolveSteps_def hardenTemplate_def getActions_def GITHUB_ACTIONS_def
        List.map_filter_simps)
  obtain plan where p: "generatePlan hardenCatalog getActions storedStore ''protect main'' ?ctx = Planned plan"
    and s: "steps plan = tpl_steps hardenTemplate" and lv: "riskLevel plan = MED"
    by (simp add: generatePlan_def getConnection_def storedStore_def storedConnection_def
        hardenCatalog_def Let_def resolveSteps_def hardenTemplate_def getActions_def
        GITHUB_ACTIONS_def List.map_filter_simps aggregateRisk_def less_eq_RiskLevel_def)
  from res s have r: "map risk (resolveSteps getActions (steps plan)) = [LOW, MED]"
    by simp
  then have ne: "resolveSteps getActions (steps plan) \<noteq> []"
    by auto
  from plan_riskLevel_is_maximum [OF p ne] p r lv show ?thesis
    by (intro exI [of _ plan] conjI)
qed

end
